theory Spec2Isabelle
  imports Main
begin

section \<open>The concert server of \<open>main.py\<close>\<close>

text \<open>
  \<open>main.py\<close> is a Flask application over two module-level variables: the list
  \<open>concerts\<close> of dictionaries and the counter \<open>concerts_key\<close>. Each route handler
  reads or mutates them and returns a response.

  The embedding keeps the dictionaries as objects on a heap, because the handlers and
  the view helpers share them by reference: \<open>limit_offset\<close> returns the stored
  dictionaries themselves, \<open>encode_date\<close> assigns into the dictionaries of the list it
  holds, and \<open>patch_concerts_id\<close> assigns into a stored dictionary. A list is a list of
  addresses. The program never mutates a list through an alias (only the global
  \<open>concerts\<close> is appended to, assigned at an index or deleted from), so lists are values.

  Three library functions are parameters of the model, since their code is not part of
  the repository: \<open>datetime.fromisoformat\<close>, \<open>datetime.isoformat\<close> and \<open>int\<close> applied to a
  string. Every handler returns the state it leaves behind together with either a
  response or the exception that leaves the handler uncaught.

  Outside the model: JSON numbers that are not integers, a request body that is not
  well-formed JSON, and a path segment that is not a non-negative integer (the router
  rejects it before a handler runs).
\<close>

subsection \<open>Values\<close>

datatype jvalue =
  JNull | JBool bool | JInt int | JStr string | JArr "jvalue list" | JObj "(string \<times> jvalue) list"

text \<open>A field of a stored dictionary holds what the client sent, or a datetime.\<close>

datatype 'd pyval = PJson jvalue | PDate 'd

type_synonym 'd dict = "(string \<times> 'd pyval) list"

datatype error = KeyError | ValueError | TypeError | AttributeError | AssertionError

record 'd pylib =
  fromisoformat :: "string \<Rightarrow> 'd option"
  isoformat :: "'d \<Rightarrow> string"
  int_str :: "string \<Rightarrow> int option"

subsection \<open>Dictionaries\<close>

text \<open>
  A dictionary is the list of its items in insertion order, with distinct keys.
  \<open>d[k] = v\<close> keeps the position of a key that is present and appends a new one.
\<close>

definition dict_has :: "'d dict \<Rightarrow> string \<Rightarrow> bool" where
  "dict_has d k = (k \<in> set (map fst d))"

definition dict_get :: "'d dict \<Rightarrow> string \<Rightarrow> 'd pyval option" where
  "dict_get d k = map_of d k"

fun dict_set :: "'d dict \<Rightarrow> string \<Rightarrow> 'd pyval \<Rightarrow> 'd dict" where
  "dict_set [] k v = [(k, v)]"
| "dict_set ((k', v') # d) k v = (if k' = k then (k, v) # d else (k', v') # dict_set d k v)"

text \<open>\<open>record[field] == value\<close> for an integer \<open>value\<close>; Python has \<open>True == 1\<close>.\<close>

fun py_eq_int :: "'d pyval \<Rightarrow> int \<Rightarrow> bool" where
  "py_eq_int (PJson (JInt n)) v = (n = v)"
| "py_eq_int (PJson (JBool b)) v = ((if b then 1 else 0) = v)"
| "py_eq_int _ v = False"

subsection \<open>The request body\<close>

text \<open>\<open>request.json[k]\<close>: only a JSON object can be indexed by a string.\<close>

fun json_getitem :: "jvalue \<Rightarrow> string \<Rightarrow> error + jvalue" where
  "json_getitem (JObj kvs) k = (case map_of kvs k of None \<Rightarrow> Inl KeyError | Some v \<Rightarrow> Inr v)"
| "json_getitem _ k = Inl TypeError"

fun starts_with :: "string \<Rightarrow> string \<Rightarrow> bool" where
  "starts_with s [] = True"
| "starts_with [] (p # ps) = False"
| "starts_with (c # cs) (p # ps) = (c = p \<and> starts_with cs ps)"

fun str_contains :: "string \<Rightarrow> string \<Rightarrow> bool" where
  "str_contains [] p = (p = [])"
| "str_contains (c # cs) p = (starts_with (c # cs) p \<or> str_contains cs p)"

text \<open>
  \<open>k in request.json\<close>: key membership for an object, element membership for an array,
  substring for a string, TypeError for the rest.
\<close>

fun json_contains :: "jvalue \<Rightarrow> string \<Rightarrow> error + bool" where
  "json_contains (JObj kvs) k = Inr (k \<in> set (map fst kvs))"
| "json_contains (JArr xs) k = Inr (JStr k \<in> set xs)"
| "json_contains (JStr s) k = Inr (str_contains s k)"
| "json_contains _ k = Inl TypeError"

text \<open>\<open>datetime.fromisoformat(x)\<close> and \<open>int(x)\<close> on a JSON value.\<close>

fun parse_date :: "'d pylib \<Rightarrow> jvalue \<Rightarrow> error + 'd" where
  "parse_date lib (JStr s) = (case fromisoformat lib s of None \<Rightarrow> Inl ValueError | Some d \<Rightarrow> Inr d)"
| "parse_date lib _ = Inl TypeError"

fun py_int :: "'d pylib \<Rightarrow> jvalue \<Rightarrow> error + int" where
  "py_int lib (JInt n) = Inr n"
| "py_int lib (JBool b) = Inr (if b then 1 else 0)"
| "py_int lib (JStr s) = (case int_str lib s of None \<Rightarrow> Inl ValueError | Some n \<Rightarrow> Inr n)"
| "py_int lib _ = Inl TypeError"

record request =
  is_json :: bool
  json :: jvalue

text \<open>The three reads that open \<open>post_concerts\<close> and \<open>put_concerts_id\<close>, in order.\<close>

definition read_fields :: "'d pylib \<Rightarrow> jvalue \<Rightarrow> error + (jvalue \<times> jvalue \<times> 'd)" where
  "read_fields lib j =
     (case json_getitem j ''artist'' of Inl e \<Rightarrow> Inl e | Inr artist \<Rightarrow>
     (case json_getitem j ''venue'' of Inl e \<Rightarrow> Inl e | Inr venue \<Rightarrow>
     (case json_getitem j ''date'' of Inl e \<Rightarrow> Inl e | Inr x \<Rightarrow>
     (case parse_date lib x of Inl e \<Rightarrow> Inl e | Inr dt \<Rightarrow> Inr (artist, venue, dt)))))"

subsection \<open>The store\<close>

type_synonym addr = nat

type_synonym 'd heap = "'d dict list"

record 'd state =
  heap :: "'d heap"
  concerts :: "addr list"
  concerts_key :: int

definition new_concert :: "int \<Rightarrow> jvalue \<Rightarrow> jvalue \<Rightarrow> 'd \<Rightarrow> 'd dict" where
  "new_concert identity artist venue dt =
     [(''id'', PJson (JInt identity)), (''artist'', PJson artist),
      (''venue'', PJson venue), (''date'', PDate dt)]"

text \<open>Loading the module parses the two dates; a failure there raises before the server runs.\<close>

definition module_init :: "'d pylib \<Rightarrow> error + 'd state" where
  "module_init lib =
     (case fromisoformat lib ''2017-07-20T20:00:00-02:00'' of None \<Rightarrow> Inl ValueError | Some d1 \<Rightarrow>
     (case fromisoformat lib ''2022-09-26T15:00:00-02:00'' of None \<Rightarrow> Inl ValueError | Some d2 \<Rightarrow>
      Inr \<lparr>heap = [new_concert 1 (JStr ''Pink Floyd'') (JStr ''Werchter'') d1,
                   new_concert 2 (JStr ''Kraftwerk'') (JStr ''Domaine National de St Cloud'') d2],
           concerts = [0, 1], concerts_key = 3\<rparr>))"

text \<open>What the store holds: the dictionaries of \<open>concerts\<close>, in order.\<close>

definition snapshot :: "'d heap \<Rightarrow> addr list \<Rightarrow> 'd dict list" where
  "snapshot h xs = map (\<lambda>a. h ! a) xs"

subsection \<open>View helpers\<close>

text \<open>The bounds of \<open>xs[i:j]\<close>: a negative index counts from the end, then both are clamped.\<close>

definition slice_index :: "nat \<Rightarrow> int \<Rightarrow> nat" where
  "slice_index n i =
     (if i < 0 then (if i + int n < 0 then 0 else nat (i + int n))
      else if int n < i then n else nat i)"

definition py_slice :: "'a list \<Rightarrow> int \<Rightarrow> int \<Rightarrow> 'a list" where
  "py_slice xs i j =
     (let lo = slice_index (length xs) i; hi = slice_index (length xs) j
      in take (hi - lo) (drop lo xs))"

definition limit_offset :: "'a list \<Rightarrow> int \<Rightarrow> int \<Rightarrow> 'a list" where
  "limit_offset content_list limit offset =
     (if limit \<noteq> 0 \<or> offset \<noteq> 0 then py_slice content_list offset (offset + limit)
      else content_list)"

text \<open>\<open>fields.split(',')\<close>.\<close>

fun split_comma :: "string \<Rightarrow> string \<Rightarrow> string list" where
  "split_comma acc [] = [rev acc]"
| "split_comma acc (c # cs) =
     (if c = CHR '','' then rev acc # split_comma [] cs else split_comma (c # acc) cs)"

definition reduce_fields :: "'d heap \<Rightarrow> addr list \<Rightarrow> string option \<Rightarrow> addr list \<times> 'd heap" where
  "reduce_fields h content_list field_names =
     (case field_names of
        None \<Rightarrow> (content_list, h)
      | Some fs \<Rightarrow>
          if fs = [] then (content_list, h)
          else (let keep = set (split_comma [] fs)
                in ([length h ..< length h + length content_list],
                    h @ map (\<lambda>a. filter (\<lambda>(k, v). k \<in> keep) (h ! a)) content_list)))"

text \<open>
  \<open>deepcopy\<close> of a list of dictionaries: a new dictionary for each address, the same new
  one when an address occurs again (the memo of \<open>copy.deepcopy\<close>).
\<close>

fun deepcopy :: "'d heap \<Rightarrow> (addr \<times> addr) list \<Rightarrow> addr list \<Rightarrow> addr list \<times> 'd heap" where
  "deepcopy h memo [] = ([], h)"
| "deepcopy h memo (a # as) =
     (case map_of memo a of
        Some b \<Rightarrow> (let (bs, h') = deepcopy h memo as in (b # bs, h'))
      | None \<Rightarrow> (let (bs, h') = deepcopy (h @ [h ! a]) ((a, length h) # memo) as
                in (length h # bs, h')))"

text \<open>The inner loop of \<open>encode_date\<close> over the fields of one record, then the outer one.\<close>

fun encode_fields :: "'d pylib \<Rightarrow> 'd heap \<Rightarrow> addr \<Rightarrow> string list \<Rightarrow> (error + unit) \<times> 'd heap" where
  "encode_fields lib h a [] = (Inr (), h)"
| "encode_fields lib h a (f # fs) =
     (case dict_get (h ! a) f of
        None \<Rightarrow> (Inl KeyError, h)
      | Some (PJson x) \<Rightarrow> (Inl AttributeError, h)
      | Some (PDate d) \<Rightarrow>
          encode_fields lib (h[a := dict_set (h ! a) f (PJson (JStr (isoformat lib d)))]) a fs)"

fun encode_records :: "'d pylib \<Rightarrow> 'd heap \<Rightarrow> addr list \<Rightarrow> string list \<Rightarrow> (error + unit) \<times> 'd heap" where
  "encode_records lib h [] fs = (Inr (), h)"
| "encode_records lib h (a # as) fs =
     (case encode_fields lib h a fs of
        (Inl e, h') \<Rightarrow> (Inl e, h')
      | (Inr u, h') \<Rightarrow> encode_records lib h' as fs)"

definition encode_date :: "'d pylib \<Rightarrow> 'd heap \<Rightarrow> addr list \<Rightarrow> string \<Rightarrow> (error + addr list) \<times> 'd heap" where
  "encode_date lib h content_list field_names =
     (if field_names = [] then (Inl AssertionError, h)
      else (let fs = split_comma [] field_names in
        case content_list of
          [] \<Rightarrow> (Inr content_list, h)
        | a # as \<Rightarrow>
            if \<forall>f \<in> set fs. dict_has (h ! a) f
            then (let (copy, h1) = deepcopy h [] content_list in
                  case encode_records lib h1 copy fs of
                    (Inl e, h2) \<Rightarrow> (Inl e, h2)
                  | (Inr u, h2) \<Rightarrow> (Inr copy, h2))
            else (Inr content_list, h)))"

text \<open>
  What \<open>encode_date\<close> is meant to do to one record: every item under a requested name
  that holds a datetime is rendered as its ISO string, the rest is kept.
\<close>

fun iso_value :: "'d pylib \<Rightarrow> 'd pyval \<Rightarrow> 'd pyval" where
  "iso_value lib (PDate d) = PJson (JStr (isoformat lib d))"
| "iso_value lib (PJson x) = PJson x"

definition encoded :: "'d pylib \<Rightarrow> string set \<Rightarrow> 'd dict \<Rightarrow> 'd dict" where
  "encoded lib names r = map (\<lambda>(k, v). if k \<in> names then (k, iso_value lib v) else (k, v)) r"

subsection \<open>Lookup\<close>

fun content_index_from :: "'d heap \<Rightarrow> addr list \<Rightarrow> string \<Rightarrow> int \<Rightarrow> nat \<Rightarrow> error + nat option" where
  "content_index_from h [] field v index = Inr None"
| "content_index_from h (a # as) field v index =
     (case dict_get (h ! a) field of
        None \<Rightarrow> Inl KeyError
      | Some x \<Rightarrow> if py_eq_int x v then Inr (Some index)
                  else content_index_from h as field v (Suc index))"

definition content_index :: "'d heap \<Rightarrow> addr list \<Rightarrow> string \<Rightarrow> int \<Rightarrow> error + nat option" where
  "content_index h content_list field v =
     (case content_list of
        [] \<Rightarrow> Inr None
      | a # as \<Rightarrow> if dict_has (h ! a) field then content_index_from h content_list field v 0
                  else Inr None)"

text \<open>\<open>if index:\<close> is false for \<open>None\<close> and for \<open>0\<close>.\<close>

fun truthy :: "nat option \<Rightarrow> bool" where
  "truthy None = False"
| "truthy (Some n) = (n \<noteq> 0)"

text \<open>The record at an address has the field, and its value equals \<open>v\<close>.\<close>

definition field_is :: "'d heap \<Rightarrow> addr \<Rightarrow> string \<Rightarrow> int \<Rightarrow> bool" where
  "field_is h a field v = (case dict_get (h ! a) field of None \<Rightarrow> False | Some x \<Rightarrow> py_eq_int x v)"

subsection \<open>Responses\<close>

text \<open>
  The body is the object handed to \<open>jsonify\<close>, read from the heap when the handler
  returns. \<open>location\<close> is the id in the header \<open>location: /concerts/{id}\<close>.
\<close>

datatype 'd body = NoBody | JsonError string | JsonList "'d dict list" | JsonObj "'d dict"

record 'd response =
  status :: nat
  body :: "'d body"
  location :: "int option"

definition error_response :: "string \<Rightarrow> nat \<Rightarrow> 'd response" where
  "error_response msg code = \<lparr>status = code, body = JsonError msg, location = None\<rparr>"

definition empty_response :: "nat \<Rightarrow> 'd response" where
  "empty_response code = \<lparr>status = code, body = NoBody, location = None\<rparr>"

type_synonym 'd outcome = "(error + 'd response) \<times> 'd state"

subsection \<open>POST\<close>

text \<open>
  The second \<open>try\<close> block of \<open>post_concerts\<close> (lines 91 to 98): the id to use and the new
  counter. \<open>except KeyError\<close> also catches a KeyError raised inside \<open>content_index\<close>.
\<close>

datatype identity_choice =
  Supplied int int | Generated int int | AlreadyExists | Raised error

definition post_identity :: "'d pylib \<Rightarrow> jvalue \<Rightarrow> 'd state \<Rightarrow> identity_choice" where
  "post_identity lib j s =
     (let generate = Generated (concerts_key s) (concerts_key s + 1) in
      case json_getitem j ''id'' of
        Inl KeyError \<Rightarrow> generate
      | Inl e \<Rightarrow> Raised e
      | Inr x \<Rightarrow>
          (case py_int lib x of
             Inl e \<Rightarrow> Raised e
           | Inr identity \<Rightarrow>
               (case content_index (heap s) (concerts s) ''id'' identity of
                  Inl KeyError \<Rightarrow> generate
                | Inl e \<Rightarrow> Raised e
                | Inr index \<Rightarrow>
                    if truthy index then AlreadyExists
                    else Supplied identity
                           (if identity < concerts_key s then concerts_key s else identity + 1))))"

definition append_concert :: "'d state \<Rightarrow> 'd dict \<Rightarrow> int \<Rightarrow> 'd state" where
  "append_concert s concert key =
     \<lparr>heap = heap s @ [concert], concerts = concerts s @ [length (heap s)], concerts_key = key\<rparr>"

definition created :: "int \<Rightarrow> 'd response" where
  "created identity = \<lparr>status = 201, body = NoBody, location = Some identity\<rparr>"

definition post_concerts :: "'d pylib \<Rightarrow> request \<Rightarrow> 'd state \<Rightarrow> 'd outcome" where
  "post_concerts lib req s =
     (if is_json req then
        (case read_fields lib (json req) of
           Inl KeyError \<Rightarrow> (Inr (error_response ''Missing field(s)'' 400), s)
         | Inl ValueError \<Rightarrow> (Inr (error_response ''Wrong datetime format'' 400), s)
         | Inl e \<Rightarrow> (Inl e, s)
         | Inr (artist, venue, dt) \<Rightarrow>
             (case post_identity lib (json req) s of
                Raised e \<Rightarrow> (Inl e, s)
              | AlreadyExists \<Rightarrow> (Inr (error_response ''Resource already exists'' 400), s)
              | Supplied identity key \<Rightarrow>
                  (Inr (created identity),
                   append_concert s (new_concert identity artist venue dt) key)
              | Generated identity key \<Rightarrow>
                  (Inr (created identity),
                   append_concert s (new_concert identity artist venue dt) key)))
      else (Inr (error_response ''Incorrect Content-Type'' 400), s))"

definition post_concerts_id :: "int \<Rightarrow> 'd state \<Rightarrow> 'd outcome" where
  "post_concerts_id identity s =
     (case content_index (heap s) (concerts s) ''id'' identity of
        Inl e \<Rightarrow> (Inl e, s)
      | Inr index \<Rightarrow>
          if truthy index then (Inr (error_response ''Resource already exists'' 409), s)
          else (Inr (error_response ''Resource not found'' 404), s))"

subsection \<open>GET\<close>

record query_args =
  arg_limit :: "string option"
  arg_offset :: "string option"
  arg_fields :: "string option"

text \<open>\<open>int(request.args.get(name) or 0)\<close>: a missing or empty parameter is 0.\<close>

definition arg_int :: "'d pylib \<Rightarrow> string option \<Rightarrow> error + int" where
  "arg_int lib a =
     (case a of
        None \<Rightarrow> Inr 0
      | Some t \<Rightarrow> if t = [] then Inr 0
                  else (case int_str lib t of None \<Rightarrow> Inl ValueError | Some n \<Rightarrow> Inr n))"

definition get_concerts :: "'d pylib \<Rightarrow> query_args \<Rightarrow> 'd state \<Rightarrow> 'd outcome" where
  "get_concerts lib args s =
     (case arg_int lib (arg_limit args) of Inl e \<Rightarrow> (Inl e, s) | Inr limit \<Rightarrow>
     (case arg_int lib (arg_offset args) of Inl e \<Rightarrow> (Inl e, s) | Inr offset \<Rightarrow>
        (let t1 = limit_offset (concerts s) limit offset;
             (t2, h2) = reduce_fields (heap s) t1 (arg_fields args);
             (r, h3) = encode_date lib h2 t2 ''date''
         in case r of
              Inl e \<Rightarrow> (Inl e, s\<lparr>heap := h3\<rparr>)
            | Inr t3 \<Rightarrow> (Inr \<lparr>status = 200, body = JsonList (snapshot h3 t3), location = None\<rparr>,
                         s\<lparr>heap := h3\<rparr>))))"

definition get_concerts_id :: "'d pylib \<Rightarrow> int \<Rightarrow> string option \<Rightarrow> 'd state \<Rightarrow> 'd outcome" where
  "get_concerts_id lib identity field_names s =
     (case content_index (heap s) (concerts s) ''id'' identity of
        Inl e \<Rightarrow> (Inl e, s)
      | Inr index \<Rightarrow>
          if truthy index then
            (let (t2, h2) = reduce_fields (heap s) [concerts s ! the index] field_names;
                 (r, h3) = encode_date lib h2 t2 ''date''
             in case r of
                  Inl e \<Rightarrow> (Inl e, s\<lparr>heap := h3\<rparr>)
                | Inr t3 \<Rightarrow> (Inr \<lparr>status = 200, body = JsonObj (h3 ! hd t3), location = None\<rparr>,
                             s\<lparr>heap := h3\<rparr>))
          else (Inr (error_response ''Resource not found'' 404), s))"

subsection \<open>PUT, PATCH, DELETE\<close>

definition method_not_allowed :: "'d state \<Rightarrow> 'd outcome" where
  "method_not_allowed s = (Inr (error_response ''Method Not Allowed'' 405), s)"

definition put_concerts_id :: "'d pylib \<Rightarrow> int \<Rightarrow> request \<Rightarrow> 'd state \<Rightarrow> 'd outcome" where
  "put_concerts_id lib identity req s =
     (if is_json req then
        (case read_fields lib (json req) of
           Inl KeyError \<Rightarrow> (Inr (error_response ''Missing field(s)'' 400), s)
         | Inl e \<Rightarrow> (Inl e, s)
         | Inr (artist, venue, dt) \<Rightarrow>
             (let concert = new_concert identity artist venue dt in
              case content_index (heap s) (concerts s) ''id'' identity of
                Inl e \<Rightarrow> (Inl e, s)
              | Inr index \<Rightarrow>
                  if truthy index then
                    (Inr (empty_response 204),
                     s\<lparr>heap := heap s @ [concert],
                       concerts := (concerts s)[the index := length (heap s)]\<rparr>)
                  else
                    (Inr (empty_response 201),
                     append_concert s concert
                       (if identity < concerts_key s then concerts_key s else identity + 1))))
      else (Inr (error_response ''Incorrect Content-Type or no JSON payload'' 400), s))"

text \<open>The loop of \<open>patch_concerts_id\<close> over \<open>['artist', 'venue']\<close>, then the date.\<close>

fun patch_keys :: "'d heap \<Rightarrow> addr \<Rightarrow> jvalue \<Rightarrow> string list \<Rightarrow> (error + unit) \<times> 'd heap" where
  "patch_keys h a j [] = (Inr (), h)"
| "patch_keys h a j (k # ks) =
     (case json_contains j k of
        Inl e \<Rightarrow> (Inl e, h)
      | Inr False \<Rightarrow> patch_keys h a j ks
      | Inr True \<Rightarrow>
          (case json_getitem j k of
             Inl e \<Rightarrow> (Inl e, h)
           | Inr x \<Rightarrow> patch_keys (h[a := dict_set (h ! a) k (PJson x)]) a j ks))"

definition patch_date :: "'d pylib \<Rightarrow> 'd heap \<Rightarrow> addr \<Rightarrow> jvalue \<Rightarrow> (error + unit) \<times> 'd heap" where
  "patch_date lib h a j =
     (case json_contains j ''date'' of
        Inl e \<Rightarrow> (Inl e, h)
      | Inr False \<Rightarrow> (Inr (), h)
      | Inr True \<Rightarrow>
          (case json_getitem j ''date'' of
             Inl e \<Rightarrow> (Inl e, h)
           | Inr x \<Rightarrow>
               (case parse_date lib x of
                  Inl e \<Rightarrow> (Inl e, h)
                | Inr dt \<Rightarrow> (Inr (), h[a := dict_set (h ! a) ''date'' (PDate dt)]))))"

definition patch_concerts_id :: "'d pylib \<Rightarrow> int \<Rightarrow> request \<Rightarrow> 'd state \<Rightarrow> 'd outcome" where
  "patch_concerts_id lib identity req s =
     (if is_json req then
        (case content_index (heap s) (concerts s) ''id'' identity of
           Inl e \<Rightarrow> (Inl e, s)
         | Inr index \<Rightarrow>
             if truthy index then
               (let a = concerts s ! the index in
                case patch_keys (heap s) a (json req) [''artist'', ''venue''] of
                  (Inl e, h1) \<Rightarrow> (Inl e, s\<lparr>heap := h1\<rparr>)
                | (Inr u, h1) \<Rightarrow>
                    (case patch_date lib h1 a (json req) of
                       (Inl e, h2) \<Rightarrow> (Inl e, s\<lparr>heap := h2\<rparr>)
                     | (Inr u, h2) \<Rightarrow> (Inr (empty_response 204), s\<lparr>heap := h2\<rparr>)))
             else (Inr (error_response ''Resource not found'' 404), s))
      else (Inr (error_response ''Incorrect Content-Type'' 400), s))"

definition del_concerts_id :: "'d pylib \<Rightarrow> int \<Rightarrow> 'd state \<Rightarrow> 'd outcome" where
  "del_concerts_id lib identity s =
     (case content_index (heap s) (concerts s) ''id'' identity of
        Inl e \<Rightarrow> (Inl e, s)
      | Inr index \<Rightarrow>
          if truthy index then
            (let (r, h1) = encode_date lib (heap s) [concerts s ! the index] ''date''
             in case r of
                  Inl e \<Rightarrow> (Inl e, s\<lparr>heap := h1\<rparr>)
                | Inr t \<Rightarrow>
                    (Inr \<lparr>status = 200, body = JsonObj (h1 ! hd t), location = None\<rparr>,
                     s\<lparr>heap := h1,
                       concerts := take (the index) (concerts s) @ drop (Suc (the index)) (concerts s)\<rparr>))
          else (Inr (error_response ''Resource not found'' 404), s))"

subsection \<open>The server\<close>

text \<open>
  One request to one route. The \<open>int\<close> converter of the route \<open>/concerts/<int:identity>\<close>
  only accepts digits, so the id of a path is a natural number.
\<close>

datatype call =
  PostConcerts request
| PostConcertsId nat
| GetConcerts query_args
| GetConcertsId nat "string option"
| PutConcerts
| PutConcertsId nat request
| PatchConcerts
| PatchConcertsId nat request
| DelConcerts
| DelConcertsId nat

fun handle :: "'d pylib \<Rightarrow> call \<Rightarrow> 'd state \<Rightarrow> 'd outcome" where
  "handle lib (PostConcerts req) s = post_concerts lib req s"
| "handle lib (PostConcertsId n) s = post_concerts_id (int n) s"
| "handle lib (GetConcerts args) s = get_concerts lib args s"
| "handle lib (GetConcertsId n field_names) s = get_concerts_id lib (int n) field_names s"
| "handle lib PutConcerts s = method_not_allowed s"
| "handle lib (PutConcertsId n req) s = put_concerts_id lib (int n) req s"
| "handle lib PatchConcerts s = method_not_allowed s"
| "handle lib (PatchConcertsId n req) s = patch_concerts_id lib (int n) req s"
| "handle lib DelConcerts s = method_not_allowed s"
| "handle lib (DelConcertsId n) s = del_concerts_id lib (int n) s"

text \<open>The server after a list of requests, each starting from the state the last one left.\<close>

fun serve :: "'d pylib \<Rightarrow> call list \<Rightarrow> 'd state \<Rightarrow> 'd state" where
  "serve lib [] s = s"
| "serve lib (c # cs) s = serve lib cs (snd (handle lib c s))"

text \<open>
  \<open>heap_extends h h'\<close>: every dictionary of \<open>h\<close> is in \<open>h'\<close> at the same address with the
  same items; \<open>h'\<close> may hold new dictionaries after them.
\<close>

definition heap_extends :: "'d heap \<Rightarrow> 'd heap \<Rightarrow> bool" where
  "heap_extends h h' = (take (length h) h' = h)"

fun is_get :: "call \<Rightarrow> bool" where
  "is_get (GetConcerts args) = True"
| "is_get (GetConcertsId n field_names) = True"
| "is_get c = False"





text \<open>The value under \<open>id\<close> of every record of the store, in order.\<close>

definition store_ids :: "'d state \<Rightarrow> 'd pyval option list" where
  "store_ids s = map (\<lambda>a. dict_get (heap s ! a) ''id'') (concerts s)"


subsection \<open>A library table for the examples\<close>

text \<open>
  The examples below need the library at a few strings. This table gives Python's answers
  there, with a datetime written as its ISO text: the three date strings parse and print
  back as themselves, \<open>int\<close> reads the three numerals, and the string \<open>not-a-date\<close> raises
  ValueError. The table is not meant to agree with Python on any other string.
\<close>

definition sample_lib :: "string pylib" where
  "sample_lib =
     \<lparr>fromisoformat = (\<lambda>t. if t \<in> set [''2017-07-20T20:00:00-02:00'',
                                         ''2022-09-26T15:00:00-02:00'',
                                         ''2024-01-01T00:00:00+00:00''] then Some t else None),
      isoformat = (\<lambda>d. d),
      int_str = map_of [(''0'', 0), (''1'', 1), (''2'', 2)]\<rparr>"

definition sample_state :: "string state" where
  "sample_state =
     \<lparr>heap = [new_concert 1 (JStr ''Pink Floyd'') (JStr ''Werchter'') ''2017-07-20T20:00:00-02:00'',
              new_concert 2 (JStr ''Kraftwerk'') (JStr ''Domaine National de St Cloud'')
                ''2022-09-26T15:00:00-02:00''],
      concerts = [0, 1], concerts_key = 3\<rparr>"

definition sample_body :: "jvalue" where
  "sample_body = JObj [(''artist'', JStr ''Can''), (''venue'', JStr ''Forest National''),
                       (''date'', JStr ''2024-01-01T00:00:00+00:00'')]"

definition sample_request :: request where
  "sample_request = \<lparr>is_json = True, json = sample_body\<rparr>"

text \<open>The same fields with the id of the first record of the store.\<close>

definition sample_post :: request where
  "sample_post =
     \<lparr>is_json = True,
      json = JObj [(''id'', JInt 1), (''artist'', JStr ''Can''), (''venue'', JStr ''Forest National''),
                   (''date'', JStr ''2024-01-01T00:00:00+00:00'')]\<rparr>"


text \<open>A body whose date the library does not parse.\<close>

definition sample_bad_date :: request where
  "sample_bad_date =
     \<lparr>is_json = True,
      json = JObj [(''artist'', JStr ''Can''), (''venue'', JStr ''Forest National''),
                   (''date'', JStr ''not-a-date'')]\<rparr>"

section \<open>Lookup and the index 0\<close>

lemma content_index_from_Some:
  "content_index_from h xs f v n = Inr (Some i) \<Longrightarrow>
     n \<le> i \<and> i - n < length xs \<and> field_is h (xs ! (i - n)) f v
     \<and> (\<forall>j < i - n. \<not> field_is h (xs ! j) f v)"
proof (induction xs arbitrary: n)
  case Nil
  then show ?case by simp
next
  case (Cons a as)
  show ?case
  proof (cases "dict_get (h ! a) f")
    case None
    with Cons.prems show ?thesis by simp
  next
    case (Some x)
    show ?thesis
    proof (cases "py_eq_int x v")
      case True
      with Some Cons.prems show ?thesis by (simp add: field_is_def)
    next
      case False
      with Some Cons.prems have rest: "content_index_from h as f v (Suc n) = Inr (Some i)"
        by simp
      from Cons.IH [OF rest] have ih: "Suc n \<le> i" "i - Suc n < length as"
        "field_is h (as ! (i - Suc n)) f v" "\<forall>j < i - Suc n. \<not> field_is h (as ! j) f v"
        by simp_all
      have head: "\<not> field_is h a f v" using Some False by (simp add: field_is_def)
      from ih(1) obtain m where m: "i - n = Suc m" "i - Suc n = m"
        by (metis Suc_diff_Suc Suc_le_lessD)
      have "\<forall>j < Suc m. \<not> field_is h ((a # as) ! j) f v"
        using head ih(4) m by (auto simp add: less_Suc_eq_0_disj)
      then show ?thesis using ih m by auto
    qed
  qed
qed

lemma content_index_first:
  assumes "content_index h cl f v = Inr (Some i)"
  shows "i < length cl \<and> field_is h (cl ! i) f v \<and> (\<forall>j < i. \<not> field_is h (cl ! j) f v)"
proof (cases cl)
  case Nil
  with assms show ?thesis by (simp add: content_index_def)
next
  case (Cons a as)
  with assms have "content_index_from h cl f v 0 = Inr (Some i)"
    by (simp add: content_index_def split: if_splits)
  from content_index_from_Some [OF this] show ?thesis by simp
qed

lemma dict_has_get: "dict_has d k \<longleftrightarrow> dict_get d k \<noteq> None"
  by (simp add: dict_has_def dict_get_def map_of_eq_None_iff)

lemma field_is_has: "field_is h a f v \<Longrightarrow> dict_has (h ! a) f"
  by (auto simp add: field_is_def dict_has_get split: option.splits)

lemma content_index_from_complete:
  "i < length xs \<Longrightarrow> field_is h (xs ! i) f v \<Longrightarrow>
   (\<forall>j < i. dict_has (h ! (xs ! j)) f \<and> \<not> field_is h (xs ! j) f v) \<Longrightarrow>
   content_index_from h xs f v n = Inr (Some (n + i))"
proof (induction xs arbitrary: i n)
  case Nil
  then show ?case by simp
next
  case (Cons a as)
  show ?case
  proof (cases i)
    case 0
    with Cons.prems show ?thesis
      by (auto simp add: field_is_def split: option.splits)
  next
    case (Suc m)
    from Cons.prems Suc have head: "dict_has (h ! a) f" "\<not> field_is h a f v"
      by auto
    from Cons.prems Suc have tl: "m < length as" "field_is h (as ! m) f v"
      "\<forall>j < m. dict_has (h ! (as ! j)) f \<and> \<not> field_is h (as ! j) f v"
      by auto
    from Cons.IH [OF tl, of "Suc n"] head Suc show ?thesis
      by (auto simp add: field_is_def dict_has_get split: option.splits)
  qed
qed

lemma content_index_complete:
  assumes "i < length cl" "field_is h (cl ! i) f v"
    "\<forall>j < i. dict_has (h ! (cl ! j)) f \<and> \<not> field_is h (cl ! j) f v"
  shows "content_index h cl f v = Inr (Some i)"
proof (cases cl)
  case Nil
  with assms show ?thesis by simp
next
  case (Cons a as)
  have "dict_has (h ! a) f"
  proof (cases i)
    case 0
    with assms(2) Cons show ?thesis by (simp add: field_is_has)
  next
    case (Suc m)
    with assms(3) Cons show ?thesis by auto
  qed
  with Cons content_index_from_complete [OF assms, of 0] show ?thesis
    by (simp add: content_index_def)
qed

text \<open>
  C1. \<open>content_index\<close> returns the position of the first record whose id matches: an
  index it returns is in range, the record there has the id, and no record before it has;
  and when a record has the id and every record before it has an id field with another
  value, that position is returned. Every handler that calls it tests the index with
  \<open>if index:\<close>, so a match at position 0 counts as no match. On \<open>/concerts/{id}\<close>, GET,
  DELETE, POST and PATCH answer 404 \<open>Resource not found\<close> and leave the state as it was,
  and PUT answers 201 and appends a second record with the id: the heap gets the new
  dictionary, the list gets its address at the end, and the counter moves past the id only
  when the id is not below it. POST on \<open>/concerts\<close> with that id in the body does not
  answer \<open>Resource already exists\<close>: it answers 201 with the location of the id and
  appends a second record in the same way.
\<close>

theorem index_zero_not_found:
  "(\<forall>i. content_index h cl ''id'' k = Inr (Some i) \<longrightarrow>
        i < length cl \<and> field_is h (cl ! i) ''id'' k \<and> (\<forall>j < i. \<not> field_is h (cl ! j) ''id'' k))
   \<and> (\<forall>i. i < length cl \<and> field_is h (cl ! i) ''id'' k
            \<and> (\<forall>j < i. dict_has (h ! (cl ! j)) ''id'' \<and> \<not> field_is h (cl ! j) ''id'' k) \<longrightarrow>
        content_index h cl ''id'' k = Inr (Some i))
   \<and> (content_index (heap s) (concerts s) ''id'' (int n) = Inr (Some 0) \<longrightarrow>
        handle lib (GetConcertsId n fs) s = (Inr (error_response ''Resource not found'' 404), s)
        \<and> handle lib (DelConcertsId n) s = (Inr (error_response ''Resource not found'' 404), s)
        \<and> handle lib (PostConcertsId n) s = (Inr (error_response ''Resource not found'' 404), s)
        \<and> (is_json req \<longrightarrow>
             handle lib (PatchConcertsId n req) s = (Inr (error_response ''Resource not found'' 404), s))
        \<and> (is_json req \<and> read_fields lib (json req) = Inr (artist, venue, dt) \<longrightarrow>
             handle lib (PutConcertsId n req) s =
               (Inr \<lparr>status = 201, body = NoBody, location = None\<rparr>,
                \<lparr>heap = heap s @ [[(''id'', PJson (JInt (int n))), (''artist'', PJson artist),
                                    (''venue'', PJson venue), (''date'', PDate dt)]],
                 concerts = concerts s @ [length (heap s)],
                 concerts_key = (if int n < concerts_key s then concerts_key s else int n + 1)\<rparr>)))
   \<and> (content_index (heap s) (concerts s) ''id'' m = Inr (Some 0)
        \<and> is_json req \<and> read_fields lib (json req) = Inr (artist, venue, dt)
        \<and> json_getitem (json req) ''id'' = Inr x \<and> py_int lib x = Inr m \<longrightarrow>
        handle lib (PostConcerts req) s =
          (Inr \<lparr>status = 201, body = NoBody, location = Some m\<rparr>,
           \<lparr>heap = heap s @ [[(''id'', PJson (JInt m)), (''artist'', PJson artist),
                               (''venue'', PJson venue), (''date'', PDate dt)]],
            concerts = concerts s @ [length (heap s)],
            concerts_key = (if m < concerts_key s then concerts_key s else m + 1)\<rparr>))"
proof -
  have first: "\<forall>i. content_index h cl ''id'' k = Inr (Some i) \<longrightarrow>
        i < length cl \<and> field_is h (cl ! i) ''id'' k \<and> (\<forall>j < i. \<not> field_is h (cl ! j) ''id'' k)"
    using content_index_first by blast
  have complete: "\<forall>i. i < length cl \<and> field_is h (cl ! i) ''id'' k
            \<and> (\<forall>j < i. dict_has (h ! (cl ! j)) ''id'' \<and> \<not> field_is h (cl ! j) ''id'' k) \<longrightarrow>
        content_index h cl ''id'' k = Inr (Some i)"
    using content_index_complete by blast
  have zero: "handle lib (GetConcertsId n fs) s = (Inr (error_response ''Resource not found'' 404), s)
        \<and> handle lib (DelConcertsId n) s = (Inr (error_response ''Resource not found'' 404), s)
        \<and> handle lib (PostConcertsId n) s = (Inr (error_response ''Resource not found'' 404), s)
        \<and> (is_json req \<longrightarrow>
             handle lib (PatchConcertsId n req) s = (Inr (error_response ''Resource not found'' 404), s))
        \<and> (is_json req \<and> read_fields lib (json req) = Inr (artist, venue, dt) \<longrightarrow>
             handle lib (PutConcertsId n req) s =
               (Inr \<lparr>status = 201, body = NoBody, location = None\<rparr>,
                \<lparr>heap = heap s @ [[(''id'', PJson (JInt (int n))), (''artist'', PJson artist),
                                    (''venue'', PJson venue), (''date'', PDate dt)]],
                 concerts = concerts s @ [length (heap s)],
                 concerts_key = (if int n < concerts_key s then concerts_key s else int n + 1)\<rparr>))"
    if z: "content_index (heap s) (concerts s) ''id'' (int n) = Inr (Some 0)"
  proof (intro conjI impI)
    show "handle lib (GetConcertsId n fs) s = (Inr (error_response ''Resource not found'' 404), s)"
      using z by (simp add: get_concerts_id_def)
    show "handle lib (DelConcertsId n) s = (Inr (error_response ''Resource not found'' 404), s)"
      using z by (simp add: del_concerts_id_def)
    show "handle lib (PostConcertsId n) s = (Inr (error_response ''Resource not found'' 404), s)"
      using z by (simp add: post_concerts_id_def)
    show "handle lib (PatchConcertsId n req) s = (Inr (error_response ''Resource not found'' 404), s)"
      if "is_json req"
      using z that by (simp add: patch_concerts_id_def)
    show "handle lib (PutConcertsId n req) s =
               (Inr \<lparr>status = 201, body = NoBody, location = None\<rparr>,
                \<lparr>heap = heap s @ [[(''id'', PJson (JInt (int n))), (''artist'', PJson artist),
                                    (''venue'', PJson venue), (''date'', PDate dt)]],
                 concerts = concerts s @ [length (heap s)],
                 concerts_key = (if int n < concerts_key s then concerts_key s else int n + 1)\<rparr>)"
      if "is_json req \<and> read_fields lib (json req) = Inr (artist, venue, dt)"
      using z that
      by (simp add: put_concerts_id_def append_concert_def new_concert_def empty_response_def)
  qed
  have post: "handle lib (PostConcerts req) s =
          (Inr \<lparr>status = 201, body = NoBody, location = Some m\<rparr>,
           \<lparr>heap = heap s @ [[(''id'', PJson (JInt m)), (''artist'', PJson artist),
                               (''venue'', PJson venue), (''date'', PDate dt)]],
            concerts = concerts s @ [length (heap s)],
            concerts_key = (if m < concerts_key s then concerts_key s else m + 1)\<rparr>)"
    if p: "content_index (heap s) (concerts s) ''id'' m = Inr (Some 0)
        \<and> is_json req \<and> read_fields lib (json req) = Inr (artist, venue, dt)
        \<and> json_getitem (json req) ''id'' = Inr x \<and> py_int lib x = Inr m"
  proof -
    from p have "post_identity lib (json req) s
        = Supplied m (if m < concerts_key s then concerts_key s else m + 1)"
      by (simp add: post_identity_def)
    with p show ?thesis
      by (simp add: post_concerts_def append_concert_def new_concert_def created_def)
  qed
  from first complete zero post show ?thesis by blast
qed

lemma sample_index: "content_index (heap sample_state) (concerts sample_state) ''id'' (int 1) = Inr (Some 0)"
  by (simp add: sample_state_def content_index_def dict_has_def dict_get_def new_concert_def)

lemma sample_read: "read_fields sample_lib (json sample_request) = Inr (JStr ''Can'', JStr ''Forest National'', ''2024-01-01T00:00:00+00:00'')"
  by (simp add: sample_request_def sample_body_def read_fields_def sample_lib_def)

lemma sample_post_read:
  "read_fields sample_lib (json sample_post)
     = Inr (JStr ''Can'', JStr ''Forest National'', ''2024-01-01T00:00:00+00:00'')"
  by (simp add: sample_post_def read_fields_def sample_lib_def)

theorem index_zero_not_found_witness:
  "content_index (heap sample_state) (concerts sample_state) ''id'' 1 = Inr (Some 0)
   \<and> is_json sample_request \<and> is_json sample_post
   \<and> json_getitem (json sample_post) ''id'' = Inr (JInt 1)
   \<and> handle sample_lib (GetConcertsId 1 None) sample_state
       = (Inr \<lparr>status = 404, body = JsonError ''Resource not found'', location = None\<rparr>, sample_state)
   \<and> handle sample_lib (DelConcertsId 1) sample_state
       = (Inr \<lparr>status = 404, body = JsonError ''Resource not found'', location = None\<rparr>, sample_state)
   \<and> handle sample_lib (PostConcertsId 1) sample_state
       = (Inr \<lparr>status = 404, body = JsonError ''Resource not found'', location = None\<rparr>, sample_state)
   \<and> handle sample_lib (PatchConcertsId 1 sample_request) sample_state
       = (Inr \<lparr>status = 404, body = JsonError ''Resource not found'', location = None\<rparr>, sample_state)
   \<and> handle sample_lib (PutConcertsId 1 sample_request) sample_state
       = (Inr \<lparr>status = 201, body = NoBody, location = None\<rparr>,
          \<lparr>heap = heap sample_state
                   @ [[(''id'', PJson (JInt 1)), (''artist'', PJson (JStr ''Can'')),
                       (''venue'', PJson (JStr ''Forest National'')),
                       (''date'', PDate ''2024-01-01T00:00:00+00:00'')]],
           concerts = [0, 1, 2], concerts_key = 3\<rparr>)
   \<and> handle sample_lib (PostConcerts sample_post) sample_state
       = (Inr \<lparr>status = 201, body = NoBody, location = Some 1\<rparr>,
          \<lparr>heap = heap sample_state
                   @ [[(''id'', PJson (JInt 1)), (''artist'', PJson (JStr ''Can'')),
                       (''venue'', PJson (JStr ''Forest National'')),
                       (''date'', PDate ''2024-01-01T00:00:00+00:00'')]],
           concerts = [0, 1, 2], concerts_key = 3\<rparr>)"
proof -
  note t = index_zero_not_found [of "heap sample_state" "concerts sample_state" 1 sample_state 1
      sample_lib None sample_request "JStr ''Can''" "JStr ''Forest National''"
      "''2024-01-01T00:00:00+00:00''" 1 "JInt 1"]
  note z = t [THEN conjunct2, THEN conjunct2, THEN conjunct1, THEN mp, OF sample_index]
  note t' = index_zero_not_found [of "heap sample_state" "concerts sample_state" 1 sample_state 1
      sample_lib None sample_post "JStr ''Can''" "JStr ''Forest National''"
      "''2024-01-01T00:00:00+00:00''" 1 "JInt 1"]
  note p = t' [THEN conjunct2, THEN conjunct2, THEN conjunct2, THEN mp]
  have i: "content_index (heap sample_state) (concerts sample_state) ''id'' 1 = Inr (Some 0)"
    using sample_index by simp
  have j: "is_json sample_request" "is_json sample_post"
    by (simp_all add: sample_request_def sample_post_def)
  have g: "json_getitem (json sample_post) ''id'' = Inr (JInt 1)"
    by (simp add: sample_post_def)
  have len: "length (heap sample_state) = 2" "concerts sample_state = [0, 1]"
    "concerts_key sample_state = 3"
    by (simp_all add: sample_state_def)
  have post: "handle sample_lib (PostConcerts sample_post) sample_state
       = (Inr \<lparr>status = 201, body = NoBody, location = Some 1\<rparr>,
          \<lparr>heap = heap sample_state
                   @ [[(''id'', PJson (JInt 1)), (''artist'', PJson (JStr ''Can'')),
                       (''venue'', PJson (JStr ''Forest National'')),
                       (''date'', PDate ''2024-01-01T00:00:00+00:00'')]],
           concerts = [0, 1, 2], concerts_key = 3\<rparr>)"
    using p i j(2) sample_post_read g len by simp
  from z j(1) sample_read len have rest:
    "handle sample_lib (GetConcertsId 1 None) sample_state
       = (Inr \<lparr>status = 404, body = JsonError ''Resource not found'', location = None\<rparr>, sample_state)
   \<and> handle sample_lib (DelConcertsId 1) sample_state
       = (Inr \<lparr>status = 404, body = JsonError ''Resource not found'', location = None\<rparr>, sample_state)
   \<and> handle sample_lib (PostConcertsId 1) sample_state
       = (Inr \<lparr>status = 404, body = JsonError ''Resource not found'', location = None\<rparr>, sample_state)
   \<and> handle sample_lib (PatchConcertsId 1 sample_request) sample_state
       = (Inr \<lparr>status = 404, body = JsonError ''Resource not found'', location = None\<rparr>, sample_state)
   \<and> handle sample_lib (PutConcertsId 1 sample_request) sample_state
       = (Inr \<lparr>status = 201, body = NoBody, location = None\<rparr>,
          \<lparr>heap = heap sample_state
                   @ [[(''id'', PJson (JInt 1)), (''artist'', PJson (JStr ''Can'')),
                       (''venue'', PJson (JStr ''Forest National'')),
                       (''date'', PDate ''2024-01-01T00:00:00+00:00'')]],
           concerts = [0, 1, 2], concerts_key = 3\<rparr>)"
    by (simp add: error_response_def)
  from i j g rest post show ?thesis by simp
qed

section \<open>Pagination\<close>

lemma take_drop_nth: "hi \<le> length xs \<Longrightarrow> take (hi - lo) (drop lo xs) = map (\<lambda>k. xs ! k) [lo ..< hi]"
  by (rule nth_equalityI) auto

lemma slice_index_le: "slice_index n i \<le> n"
  by (auto simp add: slice_index_def)

lemma py_slice_nth:
  "py_slice xs i j = map (\<lambda>k. xs ! k) [slice_index (length xs) i ..< slice_index (length xs) j]"
  by (simp add: py_slice_def Let_def take_drop_nth slice_index_le)

lemma py_slice_nonneg:
  assumes "0 \<le> i" "0 \<le> l"
  shows "py_slice xs i (i + l) = take (nat l) (drop (nat i) xs)"
proof (cases "int (length xs) < i")
  case True
  then show ?thesis using assms by (simp add: py_slice_def slice_index_def Let_def)
next
  case False
  then have lo: "slice_index (length xs) i = nat i" using assms by (simp add: slice_index_def)
  show ?thesis
  proof (cases "int (length xs) < i + l")
    case True
    then have "slice_index (length xs) (i + l) = length xs" using assms by (simp add: slice_index_def)
    then show ?thesis using lo True False assms by (simp add: py_slice_def Let_def)
  next
    case F2: False
    then have "slice_index (length xs) (i + l) = nat (i + l)" using assms by (simp add: slice_index_def)
    moreover have "nat (i + l) - nat i = nat l" using assms by simp
    ultimately show ?thesis using lo by (simp add: py_slice_def Let_def)
  qed
qed

lemma py_slice_empty: "py_slice xs i i = []"
  by (simp add: py_slice_def Let_def)

text \<open>
  C8. \<open>limit_offset\<close> returns \<open>content_list[offset : offset + limit]\<close> as soon as \<open>limit\<close>
  or \<open>offset\<close> is not 0, and the list itself when both are 0. The slice is the run of
  elements between the two adjusted indices, with no clamping of its own: for
  non-negative parameters it is \<open>take limit (drop offset content_list)\<close>, and for
  \<open>limit = 0\<close> with a non-zero \<open>offset\<close> it is empty, not the whole list.
\<close>

theorem limit_offset_slice:
  "limit_offset xs limit offset =
     (if limit = 0 \<and> offset = 0 then xs
      else map (\<lambda>k. xs ! k)
             [slice_index (length xs) offset ..< slice_index (length xs) (offset + limit)])
   \<and> (limit = 0 \<and> offset \<noteq> 0 \<longrightarrow> limit_offset xs limit offset = [])
   \<and> (0 \<le> limit \<and> 0 \<le> offset \<and> (limit \<noteq> 0 \<or> offset \<noteq> 0) \<longrightarrow>
        limit_offset xs limit offset = take (nat limit) (drop (nat offset) xs))"
proof (intro conjI impI)
  show "limit_offset xs limit offset =
     (if limit = 0 \<and> offset = 0 then xs
      else map (\<lambda>k. xs ! k)
             [slice_index (length xs) offset ..< slice_index (length xs) (offset + limit)])"
    by (auto simp add: limit_offset_def py_slice_nth)
next
  assume "limit = 0 \<and> offset \<noteq> 0"
  then show "limit_offset xs limit offset = []"
    by (simp add: limit_offset_def py_slice_empty)
next
  assume "0 \<le> limit \<and> 0 \<le> offset \<and> (limit \<noteq> 0 \<or> offset \<noteq> 0)"
  then show "limit_offset xs limit offset = take (nat limit) (drop (nat offset) xs)"
    by (auto simp add: limit_offset_def py_slice_nonneg)
qed

theorem limit_offset_slice_witness:
  "limit_offset [10, 20, 30 :: int] 1 1 = [20]
   \<and> limit_offset [10, 20, 30 :: int] 0 2 = []
   \<and> limit_offset [10, 20, 30 :: int] 0 0 = [10, 20, 30]
   \<and> limit_offset [10, 20, 30 :: int] 5 (-2) = [20, 30]"
  using limit_offset_slice [of "[10, 20, 30 :: int]" 1 1]
    limit_offset_slice [of "[10, 20, 30 :: int]" 0 2]
    limit_offset_slice [of "[10, 20, 30 :: int]" 0 0]
    limit_offset_slice [of "[10, 20, 30 :: int]" 5 "-2"]
  by (simp add: slice_index_def upt_conv_Cons)

section \<open>Date encoding\<close>

lemma dict_set_map:
  "distinct (map fst r) \<Longrightarrow> dict_get r f = Some x \<Longrightarrow>
   dict_set r f v = map (\<lambda>(k, y). if k = f then (k, v) else (k, y)) r"
proof (induction r)
  case Nil
  then show ?case by (simp add: dict_get_def)
next
  case (Cons p r)
  obtain k y where p: "p = (k, y)" by (cases p)
  show ?case
  proof (cases "k = f")
    case True
    with Cons.prems p have "f \<notin> fst ` set r" by auto
    then have "map (\<lambda>(k, y). if k = f then (k, v) else (k, y)) r = r"
      by (induction r) auto
    with True p show ?thesis by simp
  next
    case False
    with Cons p show ?thesis by (simp add: dict_get_def)
  qed
qed

lemma dict_set_keys: "dict_get r f = Some x \<Longrightarrow> map fst (dict_set r f v) = map fst r"
  by (induction r) (auto simp add: dict_get_def split: if_splits)

lemma dict_get_set_other: "g \<noteq> f \<Longrightarrow> dict_get (dict_set r f v) g = dict_get r g"
  by (induction r) (auto simp add: dict_get_def)

lemma encode_fields_ok:
  "a < length h \<Longrightarrow> distinct (map fst (h ! a)) \<Longrightarrow> distinct fs \<Longrightarrow>
   (\<forall>f \<in> set fs. \<exists>d. dict_get (h ! a) f = Some (PDate d)) \<Longrightarrow>
   encode_fields lib h a fs = (Inr (), h[a := encoded lib (set fs) (h ! a)])"
proof (induction fs arbitrary: h)
  case Nil
  then show ?case by (simp add: encoded_def)
next
  case (Cons f fs)
  from Cons.prems obtain d where d: "dict_get (h ! a) f = Some (PDate d)" by auto
  let ?v = "PJson (JStr (isoformat lib d))"
  let ?r = "dict_set (h ! a) f ?v"
  let ?h = "h[a := ?r]"
  have a: "a < length ?h" using Cons.prems by simp
  have ra: "?h ! a = ?r" using Cons.prems by simp
  have keys: "distinct (map fst (?h ! a))"
    using Cons.prems d by (simp add: dict_set_keys)
  have dates: "\<forall>g \<in> set fs. \<exists>d. dict_get (?h ! a) g = Some (PDate d)"
  proof
    fix g assume g: "g \<in> set fs"
    with Cons.prems have "g \<noteq> f" by auto
    with g Cons.prems ra show "\<exists>d. dict_get (?h ! a) g = Some (PDate d)"
      by (simp add: dict_get_set_other)
  qed
  have fs: "distinct fs" using Cons.prems by simp
  have step: "encode_fields lib ?h a fs = (Inr (), ?h[a := encoded lib (set fs) (?h ! a)])"
    by (rule Cons.IH [OF a keys fs dates])
  have r: "?r = map (\<lambda>(k, y). if k = f then (k, ?v) else (k, y)) (h ! a)"
    using Cons.prems d by (simp add: dict_set_map)
  have f: "f \<notin> set fs" using Cons.prems by simp
  have "encoded lib (set fs) ?r = encoded lib (set (f # fs)) (h ! a)"
  proof -
    have "\<forall>p \<in> set (h ! a). fst p = f \<longrightarrow> snd p = PDate d"
    proof (intro ballI impI)
      fix p assume p: "p \<in> set (h ! a)" "fst p = f"
      then have "(f, snd p) \<in> set (h ! a)" by auto
      with Cons.prems(2) have "map_of (h ! a) f = Some (snd p)" by (rule map_of_is_SomeI)
      with d show "snd p = PDate d" by (simp add: dict_get_def)
    qed
    then show ?thesis
      unfolding r encoded_def using f by (auto simp add: case_prod_beta)
  qed
  with step ra d show ?case by simp
qed


lemma deepcopy_distinct:
  "distinct xs \<Longrightarrow> (\<forall>a \<in> set xs. a < length h) \<Longrightarrow> set xs \<inter> fst ` set memo = {} \<Longrightarrow>
   deepcopy h memo xs = ([length h ..< length h + length xs], h @ map (\<lambda>a. h ! a) xs)"
proof (induction xs arbitrary: h memo)
  case Nil
  then show ?case by simp
next
  case (Cons a as)
  have none: "map_of memo a = None"
    using Cons.prems(3) by (auto simp add: map_of_eq_None_iff)
  have d: "distinct as" and v: "\<forall>b \<in> set as. b < length (h @ [h ! a])"
    and m: "set as \<inter> fst ` set ((a, length h) # memo) = {}"
    using Cons.prems by auto
  have same: "map (\<lambda>b. (h @ [h ! a]) ! b) as = map (\<lambda>b. h ! b) as"
    using Cons.prems(2) by (simp add: nth_append)
  have "[length h ..< length h + length (a # as)]
        = length h # [length (h @ [h ! a]) ..< length (h @ [h ! a]) + length as]"
    by (subst upt_rec) simp
  with Cons.IH [OF d v m] none same show ?case by simp
qed

lemma encode_records_ok:
  "distinct bs \<Longrightarrow> distinct fs \<Longrightarrow>
   (\<forall>b \<in> set bs. b < length h \<and> distinct (map fst (h ! b))
        \<and> (\<forall>f \<in> set fs. \<exists>d. dict_get (h ! b) f = Some (PDate d))) \<Longrightarrow>
   \<exists>h'. encode_records lib h bs fs = (Inr (), h') \<and> length h' = length h
      \<and> (\<forall>i < length h. h' ! i = (if i \<in> set bs then encoded lib (set fs) (h ! i) else h ! i))"
proof (induction bs arbitrary: h)
  case Nil
  then show ?case by simp
next
  case (Cons b bs)
  let ?h = "h[b := encoded lib (set fs) (h ! b)]"
  have b: "b < length h" "distinct (map fst (h ! b))"
    "\<forall>f \<in> set fs. \<exists>d. dict_get (h ! b) f = Some (PDate d)"
    using Cons.prems by auto
  have first: "encode_fields lib h b fs = (Inr (), ?h)"
    using b Cons.prems(2) by (simp add: encode_fields_ok)
  have other: "\<forall>c \<in> set bs. ?h ! c = h ! c"
  proof
    fix c assume "c \<in> set bs"
    with Cons.prems(1) have "b \<noteq> c" by auto
    then show "?h ! c = h ! c" by simp
  qed
  have pre: "\<forall>c \<in> set bs. c < length ?h \<and> distinct (map fst (?h ! c))
        \<and> (\<forall>f \<in> set fs. \<exists>d. dict_get (?h ! c) f = Some (PDate d))"
    using Cons.prems(3) other by simp
  have "distinct bs" using Cons.prems by simp
  from Cons.IH [OF this Cons.prems(2) pre] obtain h' where
    h': "encode_records lib ?h bs fs = (Inr (), h')" "length h' = length ?h"
    "\<forall>i < length ?h. h' ! i = (if i \<in> set bs then encoded lib (set fs) (?h ! i) else ?h ! i)"
    by blast
  have "\<forall>i < length h. h' ! i = (if i \<in> set (b # bs) then encoded lib (set fs) (h ! i) else h ! i)"
  proof (intro allI impI)
    fix i assume i: "i < length h"
    show "h' ! i = (if i \<in> set (b # bs) then encoded lib (set fs) (h ! i) else h ! i)"
    proof (cases "i = b")
      case True
      with Cons.prems(1) have "i \<notin> set bs" by simp
      with h'(3) i True show ?thesis by simp
    next
      case False
      with h'(3) i show ?thesis by simp
    qed
  qed
  with first h' show ?case by simp
qed

lemma encode_date_missing:
  assumes "field_names \<noteq> []" "\<not> (\<forall>f \<in> set (split_comma [] field_names). dict_has (h ! a) f)"
  shows "encode_date lib h (a # as) field_names = (Inr (a # as), h)"
  using assms by (auto simp add: encode_date_def Let_def)

lemma encode_date_ok:
  assumes fn: "field_names \<noteq> []" and xs: "xs \<noteq> []" "distinct xs"
    and fs: "distinct (split_comma [] field_names)"
    and recs: "\<forall>b \<in> set xs. b < length h \<and> distinct (map fst (h ! b))
        \<and> (\<forall>f \<in> set (split_comma [] field_names). \<exists>d. dict_get (h ! b) f = Some (PDate d))"
  shows "\<exists>copy h'. encode_date lib h xs field_names = (Inr copy, h')
      \<and> snapshot h' copy = map (encoded lib (set (split_comma [] field_names))) (snapshot h xs)
      \<and> take (length h) h' = h \<and> (\<forall>c \<in> set copy. length h \<le> c)"
proof -
  let ?fs = "split_comma [] field_names"
  let ?n = "length h"
  let ?copy = "[?n ..< ?n + length xs]"
  let ?h1 = "h @ map (\<lambda>a. h ! a) xs"
  obtain a as where cons: "xs = a # as" using xs(1) by (cases xs) auto
  have first: "\<forall>f \<in> set ?fs. dict_has (h ! a) f"
    using recs cons by (auto simp add: dict_has_get)
  have copy: "deepcopy h [] xs = (?copy, ?h1)"
    using xs(2) recs by (simp add: deepcopy_distinct)
  have at: "\<forall>c \<in> set ?copy. ?h1 ! c = h ! (xs ! (c - ?n))"
    by (auto simp add: nth_append)
  have pre: "\<forall>c \<in> set ?copy. c < length ?h1 \<and> distinct (map fst (?h1 ! c))
        \<and> (\<forall>f \<in> set ?fs. \<exists>d. dict_get (?h1 ! c) f = Some (PDate d))"
  proof
    fix c assume c: "c \<in> set ?copy"
    then have "xs ! (c - ?n) \<in> set xs" by auto
    with recs at c show "c < length ?h1 \<and> distinct (map fst (?h1 ! c))
        \<and> (\<forall>f \<in> set ?fs. \<exists>d. dict_get (?h1 ! c) f = Some (PDate d))"
      by auto
  qed
  have "distinct ?copy" by simp
  from encode_records_ok [OF this fs pre, of lib] obtain h2 where
    h2: "encode_records lib ?h1 ?copy ?fs = (Inr (), h2)" "length h2 = length ?h1"
    "\<forall>i < length ?h1. h2 ! i = (if i \<in> set ?copy then encoded lib (set ?fs) (?h1 ! i) else ?h1 ! i)"
    by blast
  have res: "encode_date lib h xs field_names = (Inr ?copy, h2)"
    using fn cons first copy h2(1) by (simp add: encode_date_def Let_def)
  have snap: "snapshot h2 ?copy = map (encoded lib (set ?fs)) (snapshot h xs)"
    unfolding snapshot_def
  proof (rule nth_equalityI)
    show "length (map ((!) h2) ?copy) = length (map (encoded lib (set ?fs)) (map ((!) h) xs))"
      by simp
  next
    fix i assume "i < length (map ((!) h2) ?copy)"
    then have i: "i < length xs" by simp
    then have "h2 ! (?n + i) = encoded lib (set ?fs) (?h1 ! (?n + i))"
      using h2(3) by simp
    with i show "map ((!) h2) ?copy ! i = map (encoded lib (set ?fs)) (map ((!) h) xs) ! i"
      by (simp add: nth_append)
  qed
  have old: "take ?n h2 = h"
  proof (rule nth_equalityI)
    show "length (take ?n h2) = length h" using h2(2) by simp
  next
    fix i assume "i < length (take ?n h2)"
    then have i: "i < ?n" by simp
    then have "h2 ! i = ?h1 ! i" using h2(3) by simp
    with i show "take ?n h2 ! i = h ! i" by (simp add: nth_append)
  qed
  have "\<forall>c \<in> set ?copy. ?n \<le> c" by simp
  with res snap old show ?thesis by blast
qed


text \<open>
  C9, as amended. \<open>encode_date\<close> decides once, off the first record. When a requested name
  is missing from the first record, the list is returned as it is and nothing is written.
  When every record of the list is a distinct dictionary that holds a datetime under
  each requested name (the names distinct), the result is a list of new dictionaries, the
  copies of the records with each named field rendered as its ISO string, and the
  dictionaries that were there before are unchanged. Without the condition on the later
  records the call raises, as the counterexample shows: there is no check per record.
\<close>

theorem encode_date_first_record:
  "field_names \<noteq> [] \<and> xs \<noteq> [] \<longrightarrow>
     ((\<exists>f \<in> set (split_comma [] field_names). \<not> dict_has (h ! hd xs) f) \<longrightarrow>
        encode_date lib h xs field_names = (Inr xs, h))
   \<and> (distinct xs \<and> distinct (split_comma [] field_names)
        \<and> (\<forall>b \<in> set xs. b < length h \<and> distinct (map fst (h ! b))
              \<and> (\<forall>f \<in> set (split_comma [] field_names). \<exists>d. dict_get (h ! b) f = Some (PDate d))) \<longrightarrow>
        (\<exists>copy h'. encode_date lib h xs field_names = (Inr copy, h')
           \<and> snapshot h' copy = map (encoded lib (set (split_comma [] field_names))) (snapshot h xs)
           \<and> take (length h) h' = h \<and> (\<forall>c \<in> set copy. length h \<le> c)))"
proof (intro impI conjI)
  assume a: "field_names \<noteq> [] \<and> xs \<noteq> []"
    and m: "\<exists>f \<in> set (split_comma [] field_names). \<not> dict_has (h ! hd xs) f"
  from a obtain b bs where xs: "xs = b # bs" by (cases xs) auto
  with a m show "encode_date lib h xs field_names = (Inr xs, h)"
    by (simp add: encode_date_missing)
next
  assume a: "field_names \<noteq> [] \<and> xs \<noteq> []"
    and r: "distinct xs \<and> distinct (split_comma [] field_names)
        \<and> (\<forall>b \<in> set xs. b < length h \<and> distinct (map fst (h ! b))
              \<and> (\<forall>f \<in> set (split_comma [] field_names). \<exists>d. dict_get (h ! b) f = Some (PDate d)))"
  from a r show "\<exists>copy h'. encode_date lib h xs field_names = (Inr copy, h')
           \<and> snapshot h' copy = map (encoded lib (set (split_comma [] field_names))) (snapshot h xs)
           \<and> take (length h) h' = h \<and> (\<forall>c \<in> set copy. length h \<le> c)"
    by (intro encode_date_ok) simp_all
qed

lemma split_date: "split_comma [] ''date'' = [''date'']"
  by simp

text \<open>
  The claim as stated fails: the first record has the field \<open>date\<close>, the second has
  not, and the call raises KeyError instead of returning a converted copy.
\<close>

theorem encode_date_first_record_counterexample:
  "dict_has ([[(''date'', PDate ''2017-07-20T20:00:00-02:00'')], []] ! 0) ''date''
   \<and> split_comma [] ''date'' = [''date'']
   \<and> fst (encode_date sample_lib [[(''date'', PDate ''2017-07-20T20:00:00-02:00'')], []] [0, 1] ''date'')
       = Inl KeyError"
  by (simp add: encode_date_def dict_has_def dict_get_def sample_lib_def)

theorem encode_date_first_record_witness:
  "(\<exists>copy h'. encode_date sample_lib (heap sample_state) [0, 1] ''date'' = (Inr copy, h')
      \<and> snapshot h' copy =
          [[(''id'', PJson (JInt 1)), (''artist'', PJson (JStr ''Pink Floyd'')),
            (''venue'', PJson (JStr ''Werchter'')),
            (''date'', PJson (JStr ''2017-07-20T20:00:00-02:00''))],
           [(''id'', PJson (JInt 2)), (''artist'', PJson (JStr ''Kraftwerk'')),
            (''venue'', PJson (JStr ''Domaine National de St Cloud'')),
            (''date'', PJson (JStr ''2022-09-26T15:00:00-02:00''))]]
      \<and> take 2 h' = heap sample_state)
   \<and> encode_date sample_lib (heap sample_state) [0, 1] ''price'' = (Inr [0, 1], heap sample_state)"
proof -
  let ?h = "heap sample_state"
  have h: "?h = [new_concert 1 (JStr ''Pink Floyd'') (JStr ''Werchter'') ''2017-07-20T20:00:00-02:00'',
              new_concert 2 (JStr ''Kraftwerk'') (JStr ''Domaine National de St Cloud'')
                ''2022-09-26T15:00:00-02:00'']"
    by (simp add: sample_state_def)
  have pre: "distinct [0, 1 :: nat] \<and> distinct (split_comma [] ''date'')
        \<and> (\<forall>b \<in> set [0, 1]. b < length ?h \<and> distinct (map fst (?h ! b))
              \<and> (\<forall>f \<in> set (split_comma [] ''date''). \<exists>d. dict_get (?h ! b) f = Some (PDate d)))"
    by (simp add: h new_concert_def dict_get_def)
  have nonempty: "''date'' \<noteq> [] \<and> [0, 1 :: nat] \<noteq> []" by simp
  note t = encode_date_first_record [of "''date''" "[0, 1]" ?h sample_lib, THEN mp, OF nonempty]
  from t [THEN conjunct2, THEN mp, OF pre] obtain copy h' where
    c: "encode_date sample_lib ?h [0, 1] ''date'' = (Inr copy, h')"
    "snapshot h' copy = map (encoded sample_lib (set (split_comma [] ''date''))) (snapshot ?h [0, 1])"
    "take (length ?h) h' = ?h"
    by blast
  have v: "map (encoded sample_lib (set (split_comma [] ''date''))) (snapshot ?h [0, 1]) =
          [[(''id'', PJson (JInt 1)), (''artist'', PJson (JStr ''Pink Floyd'')),
            (''venue'', PJson (JStr ''Werchter'')),
            (''date'', PJson (JStr ''2017-07-20T20:00:00-02:00''))],
           [(''id'', PJson (JInt 2)), (''artist'', PJson (JStr ''Kraftwerk'')),
            (''venue'', PJson (JStr ''Domaine National de St Cloud'')),
            (''date'', PJson (JStr ''2022-09-26T15:00:00-02:00''))]]"
    by (simp add: h snapshot_def encoded_def new_concert_def sample_lib_def)
  have len: "length ?h = 2" by (simp add: h)
  have part1: "\<exists>copy h'. encode_date sample_lib ?h [0, 1] ''date'' = (Inr copy, h')
      \<and> snapshot h' copy =
          [[(''id'', PJson (JInt 1)), (''artist'', PJson (JStr ''Pink Floyd'')),
            (''venue'', PJson (JStr ''Werchter'')),
            (''date'', PJson (JStr ''2017-07-20T20:00:00-02:00''))],
           [(''id'', PJson (JInt 2)), (''artist'', PJson (JStr ''Kraftwerk'')),
            (''venue'', PJson (JStr ''Domaine National de St Cloud'')),
            (''date'', PJson (JStr ''2022-09-26T15:00:00-02:00''))]]
      \<and> take 2 h' = ?h"
    using c v len by auto
  have miss: "\<exists>f \<in> set (split_comma [] ''price''). \<not> dict_has (?h ! hd [0, 1]) f"
    by (simp add: h new_concert_def dict_has_def)
  have nonempty2: "''price'' \<noteq> [] \<and> [0, 1 :: nat] \<noteq> []" by simp
  have part2: "encode_date sample_lib ?h [0, 1] ''price'' = (Inr [0, 1], ?h)"
    by (rule encode_date_first_record [of "''price''" "[0, 1]" ?h sample_lib, THEN mp, OF nonempty2,
          THEN conjunct1, THEN mp, OF miss])
  from part1 part2 show ?thesis by blast
qed

section \<open>The GET handlers are read-only\<close>

lemma heap_extends_refl: "heap_extends h h"
  by (simp add: heap_extends_def)

lemma heap_extends_length:
  assumes "heap_extends h h'"
  shows "length h \<le> length h'"
proof -
  have "length (take (length h) h') = length h"
    using assms by (simp only: heap_extends_def)
  then show ?thesis by simp
qed

lemma heap_extends_trans:
  assumes "heap_extends h1 h2" "heap_extends h2 h3"
  shows "heap_extends h1 h3"
proof -
  have le: "length h1 \<le> length h2" using assms(1) by (rule heap_extends_length)
  have "take (length h1) h3 = take (length h1) (take (length h2) h3)"
    using le by (simp add: min_def)
  also have "\<dots> = take (length h1) h2" using assms(2) by (simp add: heap_extends_def)
  also have "\<dots> = h1" using assms(1) by (simp add: heap_extends_def)
  finally show ?thesis by (simp add: heap_extends_def)
qed

lemma heap_extends_nth:
  assumes "heap_extends h h'" "a < length h"
  shows "h' ! a = h ! a"
proof -
  have "take (length h) h' ! a = h' ! a" using assms(2) by simp
  with assms(1) show ?thesis by (simp only: heap_extends_def)
qed

lemma heap_extends_append: "heap_extends h (h @ ys)"
  by (simp add: heap_extends_def)

lemma deepcopy_frame:
  "n \<le> length h \<Longrightarrow> (\<forall>p \<in> set memo. n \<le> snd p) \<Longrightarrow> deepcopy h memo xs = (bs, h') \<Longrightarrow>
   take n h' = take n h \<and> (\<forall>b \<in> set bs. n \<le> b)"
proof (induction xs arbitrary: h memo bs h')
  case Nil
  then show ?case by simp
next
  case (Cons a as)
  show ?case
  proof (cases "map_of memo a")
    case None
    obtain cs h2 where rec: "deepcopy (h @ [h ! a]) ((a, length h) # memo) as = (cs, h2)"
      by (cases "deepcopy (h @ [h ! a]) ((a, length h) # memo) as")
    with None Cons.prems(3) have res: "bs = length h # cs" "h' = h2" by auto
    have "n \<le> length (h @ [h ! a])" using Cons.prems(1) by simp
    moreover have "\<forall>p \<in> set ((a, length h) # memo). n \<le> snd p"
      using Cons.prems(1,2) by simp
    ultimately have "take n h2 = take n (h @ [h ! a]) \<and> (\<forall>b \<in> set cs. n \<le> b)"
      using rec by (rule Cons.IH)
    with res Cons.prems(1) show ?thesis by simp
  next
    case (Some b)
    obtain cs h2 where rec: "deepcopy h memo as = (cs, h2)"
      by (cases "deepcopy h memo as")
    with Some Cons.prems(3) have res: "bs = b # cs" "h' = h2" by auto
    from Some have "(a, b) \<in> set memo" by (rule map_of_SomeD)
    with Cons.prems(2) have b: "n \<le> b" by auto
    from Cons.IH [OF Cons.prems(1,2) rec] res b show ?thesis by simp
  qed
qed

lemma encode_fields_frame: "n \<le> a \<Longrightarrow> take n (snd (encode_fields lib h a fs)) = take n h"
proof (induction fs arbitrary: h)
  case Nil
  then show ?case by simp
next
  case (Cons f fs)
  show ?case
  proof (cases "dict_get (h ! a) f")
    case None
    then show ?thesis by simp
  next
    case (Some v)
    show ?thesis
    proof (cases v)
      case (PJson x)
      with Some show ?thesis by simp
    next
      case (PDate d)
      with Some Cons.IH [OF Cons.prems, of "h[a := dict_set (h ! a) f (PJson (JStr (isoformat lib d)))]"]
        Cons.prems show ?thesis by simp
    qed
  qed
qed

lemma encode_records_frame:
  "(\<forall>a \<in> set as. n \<le> a) \<Longrightarrow> take n (snd (encode_records lib h as fs)) = take n h"
proof (induction as arbitrary: h)
  case Nil
  then show ?case by simp
next
  case (Cons a as)
  obtain r h1 where f: "encode_fields lib h a fs = (r, h1)"
    by (cases "encode_fields lib h a fs")
  have h1: "take n h1 = take n h"
    using encode_fields_frame [of n a lib h fs] Cons.prems f by simp
  show ?case
  proof (cases r)
    case (Inl e)
    with f h1 show ?thesis by simp
  next
    case (Inr u)
    have "take n (snd (encode_records lib h1 as fs)) = take n h1"
      using Cons.prems by (intro Cons.IH) simp
    with f Inr h1 show ?thesis by simp
  qed
qed

lemma encode_date_frame: "heap_extends h (snd (encode_date lib h xs field_names))"
proof (cases "field_names = [] \<or> xs = [] \<or>
    \<not> (\<forall>f \<in> set (split_comma [] field_names). dict_has (h ! hd xs) f)")
  case True
  show ?thesis
  proof (cases xs)
    case Nil
    then show ?thesis by (simp add: encode_date_def Let_def heap_extends_def)
  next
    case (Cons a as)
    show ?thesis
    proof (cases "field_names = []")
      case e: True
      then show ?thesis by (simp add: encode_date_def heap_extends_def)
    next
      case ne: False
      with True Cons have "\<not> (\<forall>f \<in> set (split_comma [] field_names). dict_has (h ! a) f)"
        by simp
      with ne Cons show ?thesis
        by (simp add: encode_date_missing heap_extends_def)
    qed
  qed
next
  case False
  then obtain a as where xs: "xs = a # as" by (cases xs) auto
  obtain copy h1 where c: "deepcopy h [] xs = (copy, h1)"
    by (cases "deepcopy h [] xs")
  have d: "take (length h) h1 = take (length h) h \<and> (\<forall>b \<in> set copy. length h \<le> b)"
    by (rule deepcopy_frame [OF _ _ c]) simp_all
  obtain r h2 where e: "encode_records lib h1 copy (split_comma [] field_names) = (r, h2)"
    by (cases "encode_records lib h1 copy (split_comma [] field_names)")
  have "take (length h) h2 = take (length h) h1"
    using encode_records_frame [of copy "length h" lib h1 "split_comma [] field_names"] d e
    by simp
  with d have h2: "take (length h) h2 = h" by simp
  have "snd (encode_date lib h xs field_names) = h2"
    using False xs c e by (cases r) (simp_all add: encode_date_def Let_def)
  with h2 show ?thesis by (simp add: heap_extends_def)
qed

lemma reduce_fields_frame: "heap_extends h (snd (reduce_fields h xs field_names))"
  by (simp add: reduce_fields_def heap_extends_def Let_def split: option.splits)

lemma get_concerts_frame:
  "concerts (snd (get_concerts lib args s)) = concerts s
   \<and> concerts_key (snd (get_concerts lib args s)) = concerts_key s
   \<and> heap_extends (heap s) (heap (snd (get_concerts lib args s)))"
proof (cases "arg_int lib (arg_limit args)")
  case (Inl e)
  then show ?thesis by (simp add: get_concerts_def heap_extends_refl)
next
  case l: (Inr limit)
  show ?thesis
  proof (cases "arg_int lib (arg_offset args)")
    case (Inl e)
    with l show ?thesis by (simp add: get_concerts_def heap_extends_refl)
  next
    case o: (Inr offset)
    let ?t1 = "limit_offset (concerts s) limit offset"
    obtain t2 h2 where r: "reduce_fields (heap s) ?t1 (arg_fields args) = (t2, h2)"
      by (cases "reduce_fields (heap s) ?t1 (arg_fields args)")
    obtain res h3 where e: "encode_date lib h2 t2 ''date'' = (res, h3)"
      by (cases "encode_date lib h2 t2 ''date''")
    have "heap_extends (heap s) h2"
      using reduce_fields_frame [of "heap s" ?t1 "arg_fields args"] r by simp
    moreover have "heap_extends h2 h3"
      using encode_date_frame [of h2 lib t2 "''date''"] e by simp
    ultimately have "heap_extends (heap s) h3" by (rule heap_extends_trans)
    with l o r e show ?thesis
      by (cases res) (simp_all add: get_concerts_def)
  qed
qed

lemma get_concerts_id_frame:
  "concerts (snd (get_concerts_id lib identity field_names s)) = concerts s
   \<and> concerts_key (snd (get_concerts_id lib identity field_names s)) = concerts_key s
   \<and> heap_extends (heap s) (heap (snd (get_concerts_id lib identity field_names s)))"
proof (cases "content_index (heap s) (concerts s) ''id'' identity")
  case (Inl e)
  then show ?thesis by (simp add: get_concerts_id_def heap_extends_refl)
next
  case (Inr index)
  show ?thesis
  proof (cases "truthy index")
    case False
    with Inr show ?thesis by (simp add: get_concerts_id_def heap_extends_refl)
  next
    case True
    let ?t1 = "[concerts s ! the index]"
    obtain t2 h2 where r: "reduce_fields (heap s) ?t1 field_names = (t2, h2)"
      by (cases "reduce_fields (heap s) ?t1 field_names")
    obtain res h3 where e: "encode_date lib h2 t2 ''date'' = (res, h3)"
      by (cases "encode_date lib h2 t2 ''date''")
    have "heap_extends (heap s) h2"
      using reduce_fields_frame [of "heap s" ?t1 field_names] r by simp
    moreover have "heap_extends h2 h3"
      using encode_date_frame [of h2 lib t2 "''date''"] e by simp
    ultimately have "heap_extends (heap s) h3" by (rule heap_extends_trans)
    with Inr True r e show ?thesis
      by (cases res) (simp_all add: get_concerts_id_def)
  qed
qed

lemma serve_get_frame:
  "(\<forall>c \<in> set cs. is_get c) \<Longrightarrow>
   concerts (serve lib cs s) = concerts s \<and> concerts_key (serve lib cs s) = concerts_key s
   \<and> heap_extends (heap s) (heap (serve lib cs s))"
proof (induction cs arbitrary: s)
  case Nil
  then show ?case by (simp add: heap_extends_refl)
next
  case (Cons c cs)
  let ?s = "snd (handle lib c s)"
  have step: "concerts ?s = concerts s \<and> concerts_key ?s = concerts_key s
      \<and> heap_extends (heap s) (heap ?s)"
  proof (cases c)
    case (GetConcerts args)
    then show ?thesis using get_concerts_frame [of lib args s] by simp
  next
    case (GetConcertsId n field_names)
    then show ?thesis using get_concerts_id_frame [of lib "int n" field_names s] by simp
  qed (use Cons.prems in simp_all)
  have "concerts (serve lib cs ?s) = concerts ?s \<and> concerts_key (serve lib cs ?s) = concerts_key ?s
      \<and> heap_extends (heap ?s) (heap (serve lib cs ?s))"
    using Cons.prems by (intro Cons.IH) simp
  with step show ?case
    using heap_extends_trans [of "heap s" "heap ?s" "heap (serve lib cs ?s)"] by simp
qed


text \<open>
  C10. The GET handlers are read-only. After any sequence of \<open>GET /concerts\<close> and
  \<open>GET /concerts/{id}\<close> requests the list \<open>concerts\<close> and the counter are what they were,
  and every dictionary that existed is unchanged: \<open>encode_date\<close> writes the ISO strings into
  the dictionaries of its deep copy only. So the stored records keep their items, the
  datetime values among them.
\<close>

theorem get_requests_read_only:
  "(\<forall>c \<in> set cs. is_get c) \<longrightarrow>
     concerts (serve lib cs s) = concerts s
   \<and> concerts_key (serve lib cs s) = concerts_key s
   \<and> heap_extends (heap s) (heap (serve lib cs s))
   \<and> ((\<forall>a \<in> set (concerts s). a < length (heap s)) \<longrightarrow>
        snapshot (heap (serve lib cs s)) (concerts (serve lib cs s)) = snapshot (heap s) (concerts s))"
proof (intro impI conjI)
  assume g: "\<forall>c \<in> set cs. is_get c"
  note f = serve_get_frame [OF g, of lib s]
  from f show "concerts (serve lib cs s) = concerts s" by simp
  from f show "concerts_key (serve lib cs s) = concerts_key s" by simp
  from f show ext: "heap_extends (heap s) (heap (serve lib cs s))" by simp
  assume v: "\<forall>a \<in> set (concerts s). a < length (heap s)"
  have "map (\<lambda>a. heap (serve lib cs s) ! a) (concerts s) = map (\<lambda>a. heap s ! a) (concerts s)"
    using v heap_extends_nth [OF ext] by simp
  with f show "snapshot (heap (serve lib cs s)) (concerts (serve lib cs s))
      = snapshot (heap s) (concerts s)"
    by (simp add: snapshot_def)
qed

theorem get_requests_read_only_witness:
  "fst (handle sample_lib (GetConcertsId 2 None) sample_state)
     = Inr \<lparr>status = 200,
            body = JsonObj [(''id'', PJson (JInt 2)), (''artist'', PJson (JStr ''Kraftwerk'')),
                            (''venue'', PJson (JStr ''Domaine National de St Cloud'')),
                            (''date'', PJson (JStr ''2022-09-26T15:00:00-02:00''))],
            location = None\<rparr>
   \<and> concerts (serve sample_lib
        [GetConcerts \<lparr>arg_limit = None, arg_offset = None, arg_fields = None\<rparr>,
         GetConcertsId 2 None] sample_state) = [0, 1]
   \<and> concerts_key (serve sample_lib
        [GetConcerts \<lparr>arg_limit = None, arg_offset = None, arg_fields = None\<rparr>,
         GetConcertsId 2 None] sample_state) = 3
   \<and> snapshot (heap (serve sample_lib
        [GetConcerts \<lparr>arg_limit = None, arg_offset = None, arg_fields = None\<rparr>,
         GetConcertsId 2 None] sample_state)) [0, 1] = heap sample_state"
proof -
  let ?cs = "[GetConcerts \<lparr>arg_limit = None, arg_offset = None, arg_fields = None\<rparr>,
         GetConcertsId 2 None]"
  have g: "\<forall>c \<in> set ?cs. is_get c" by simp
  have v: "\<forall>a \<in> set (concerts sample_state). a < length (heap sample_state)"
    by (simp add: sample_state_def)
  note t = get_requests_read_only [of ?cs sample_lib sample_state, THEN mp, OF g]
  have c: "concerts (serve sample_lib ?cs sample_state) = concerts sample_state"
    and k: "concerts_key (serve sample_lib ?cs sample_state) = concerts_key sample_state"
    using t by blast+
  have sn: "snapshot (heap (serve sample_lib ?cs sample_state)) (concerts (serve sample_lib ?cs sample_state))
      = snapshot (heap sample_state) (concerts sample_state)"
    using t [THEN conjunct2, THEN conjunct2, THEN conjunct2, THEN mp, OF v] .
  have st: "concerts sample_state = [0, 1]" "concerts_key sample_state = 3"
    "snapshot (heap sample_state) [0, 1] = heap sample_state"
    by (simp_all add: sample_state_def snapshot_def)
  have r: "fst (handle sample_lib (GetConcertsId 2 None) sample_state)
     = Inr \<lparr>status = 200,
            body = JsonObj [(''id'', PJson (JInt 2)), (''artist'', PJson (JStr ''Kraftwerk'')),
                            (''venue'', PJson (JStr ''Domaine National de St Cloud'')),
                            (''date'', PJson (JStr ''2022-09-26T15:00:00-02:00''))],
            location = None\<rparr>"
    by (simp add: get_concerts_id_def content_index_def sample_state_def new_concert_def
        dict_has_def dict_get_def reduce_fields_def encode_date_def sample_lib_def)
  from c k sn st r show ?thesis by simp
qed

section \<open>The counter and the generated ids\<close>


























section \<open>Requests on the first record, and a date that does not parse\<close>

lemma sample_init: "module_init sample_lib = Inr sample_state"
  by (simp add: module_init_def sample_lib_def sample_state_def)

lemma sample_put_first:
  "handle sample_lib (PutConcertsId 1 sample_request) sample_state
     = (Inr \<lparr>status = 201, body = NoBody, location = None\<rparr>,
        \<lparr>heap = heap sample_state
                 @ [[(''id'', PJson (JInt 1)), (''artist'', PJson (JStr ''Can'')),
                     (''venue'', PJson (JStr ''Forest National'')),
                     (''date'', PDate ''2024-01-01T00:00:00+00:00'')]],
         concerts = [0, 1, 2], concerts_key = 3\<rparr>)"
proof -
  have j: "is_json sample_request"
    by (simp add: sample_request_def)
  have len: "length (heap sample_state) = 2" "concerts sample_state = [0, 1]"
    "concerts_key sample_state = 3"
    by (simp_all add: sample_state_def)
  from j sample_index len show ?thesis
    by (simp add: put_concerts_id_def sample_read append_concert_def new_concert_def
        empty_response_def)
qed

text \<open>
  C2. From the initial store, whose ids are 1 and 2, \<open>PUT /concerts/1\<close> with the three
  fields leaves three records with the ids 1, 2 and 1: the ids are no longer distinct.
\<close>

theorem put_first_id_twice_in_store:
  "module_init sample_lib = Inr sample_state
   \<and> store_ids sample_state = [Some (PJson (JInt 1)), Some (PJson (JInt 2))]
   \<and> store_ids (serve sample_lib [PutConcertsId 1 sample_request] sample_state)
       = [Some (PJson (JInt 1)), Some (PJson (JInt 2)), Some (PJson (JInt 1))]
   \<and> \<not> distinct (store_ids (serve sample_lib [PutConcertsId 1 sample_request] sample_state))"
proof -
  have before: "store_ids sample_state = [Some (PJson (JInt 1)), Some (PJson (JInt 2))]"
    by (simp add: store_ids_def sample_state_def new_concert_def dict_get_def)
  have after: "store_ids (serve sample_lib [PutConcertsId 1 sample_request] sample_state)
       = [Some (PJson (JInt 1)), Some (PJson (JInt 2)), Some (PJson (JInt 1))]"
  proof -
    have "serve sample_lib [PutConcertsId 1 sample_request] sample_state
        = snd (handle sample_lib (PutConcertsId 1 sample_request) sample_state)"
      by (simp del: handle.simps)
    then show ?thesis
      unfolding sample_put_first
      by (simp add: store_ids_def sample_state_def new_concert_def dict_get_def)
  qed
  have dup: "\<not> distinct (store_ids (serve sample_lib [PutConcertsId 1 sample_request] sample_state))"
    unfolding after by simp
  from sample_init before after dup show ?thesis
    by (simp only: simp_thms)
qed

text \<open>
  C3. The first record of the initial store has the id 1. \<open>POST /concerts\<close> with the three
  fields and \<open>"id": 1\<close> is answered 201 with the location \<open>/concerts/1\<close>, not 400, and the
  store gets a second record with the id 1 after the two it had.
\<close>

theorem post_first_id_created_again:
  "field_is (heap sample_state) (concerts sample_state ! 0) ''id'' 1
   \<and> json_getitem (json sample_post) ''id'' = Inr (JInt 1)
   \<and> fst (handle sample_lib (PostConcerts sample_post) sample_state)
       = Inr \<lparr>status = 201, body = NoBody, location = Some 1\<rparr>
   \<and> concerts (snd (handle sample_lib (PostConcerts sample_post) sample_state)) = [0, 1, 2]
   \<and> heap (snd (handle sample_lib (PostConcerts sample_post) sample_state))
       = heap sample_state
         @ [[(''id'', PJson (JInt 1)), (''artist'', PJson (JStr ''Can'')),
             (''venue'', PJson (JStr ''Forest National'')),
             (''date'', PDate ''2024-01-01T00:00:00+00:00'')]]"
proof -
  have f: "field_is (heap sample_state) (concerts sample_state ! 0) ''id'' 1"
    by (simp add: field_is_def sample_state_def new_concert_def dict_get_def)
  have g: "json_getitem (json sample_post) ''id'' = Inr (JInt 1)"
    by (simp add: sample_post_def)
  have j: "is_json sample_post"
    by (simp add: sample_post_def)
  have i: "content_index (heap sample_state) (concerts sample_state) ''id'' 1 = Inr (Some 0)"
    using sample_index by simp
  have p: "post_identity sample_lib (json sample_post) sample_state = Supplied 1 3"
    using g i by (simp add: post_identity_def) (simp add: sample_state_def)
  have len: "length (heap sample_state) = 2" "concerts sample_state = [0, 1]"
    by (simp_all add: sample_state_def)
  have h: "handle sample_lib (PostConcerts sample_post) sample_state
     = (Inr \<lparr>status = 201, body = NoBody, location = Some 1\<rparr>,
        \<lparr>heap = heap sample_state
                 @ [[(''id'', PJson (JInt 1)), (''artist'', PJson (JStr ''Can'')),
                     (''venue'', PJson (JStr ''Forest National'')),
                     (''date'', PDate ''2024-01-01T00:00:00+00:00'')]],
         concerts = [0, 1, 2], concerts_key = 3\<rparr>)"
    using j p len
    by (simp add: post_concerts_def sample_post_read append_concert_def new_concert_def
        created_def)
  have st: "fst (handle sample_lib (PostConcerts sample_post) sample_state)
       = Inr \<lparr>status = 201, body = NoBody, location = Some 1\<rparr>"
    unfolding h by simp
  have cs: "concerts (snd (handle sample_lib (PostConcerts sample_post) sample_state)) = [0, 1, 2]"
    unfolding h by simp
  have hp: "heap (snd (handle sample_lib (PostConcerts sample_post) sample_state))
       = heap sample_state
         @ [[(''id'', PJson (JInt 1)), (''artist'', PJson (JStr ''Can'')),
             (''venue'', PJson (JStr ''Forest National'')),
             (''date'', PDate ''2024-01-01T00:00:00+00:00'')]]"
    unfolding h by simp
  from f g st cs hp show ?thesis
    by (simp only: simp_thms)
qed

text \<open>
  C4. \<open>PATCH /concerts/2\<close> with a new artist, a new venue and the date \<open>not-a-date\<close>
  raises ValueError out of the handler, and the record with the id 2 keeps the new artist
  and the new venue with its old date. \<open>PUT /concerts/2\<close> with the same body raises
  ValueError out of the handler too.
\<close>

theorem patch_bad_date_raises_after_writing:
  "handle sample_lib (PatchConcertsId 2 sample_bad_date) sample_state
     = (Inl ValueError,
        \<lparr>heap = [[(''id'', PJson (JInt 1)), (''artist'', PJson (JStr ''Pink Floyd'')),
                   (''venue'', PJson (JStr ''Werchter'')),
                   (''date'', PDate ''2017-07-20T20:00:00-02:00'')],
                  [(''id'', PJson (JInt 2)), (''artist'', PJson (JStr ''Can'')),
                   (''venue'', PJson (JStr ''Forest National'')),
                   (''date'', PDate ''2022-09-26T15:00:00-02:00'')]],
         concerts = [0, 1], concerts_key = 3\<rparr>)
   \<and> snapshot (heap sample_state) (concerts sample_state)
       = [[(''id'', PJson (JInt 1)), (''artist'', PJson (JStr ''Pink Floyd'')),
           (''venue'', PJson (JStr ''Werchter'')),
           (''date'', PDate ''2017-07-20T20:00:00-02:00'')],
          [(''id'', PJson (JInt 2)), (''artist'', PJson (JStr ''Kraftwerk'')),
           (''venue'', PJson (JStr ''Domaine National de St Cloud'')),
           (''date'', PDate ''2022-09-26T15:00:00-02:00'')]]
   \<and> handle sample_lib (PutConcertsId 2 sample_bad_date) sample_state
       = (Inl ValueError, sample_state)"
proof -
  have i: "content_index (heap sample_state) (concerts sample_state) ''id'' 2 = Inr (Some 1)"
    by (simp add: sample_state_def content_index_def dict_has_def dict_get_def new_concert_def)
  have r: "read_fields sample_lib (json sample_bad_date) = Inl ValueError"
    by (simp add: sample_bad_date_def read_fields_def sample_lib_def)
  have j: "is_json sample_bad_date"
    by (simp add: sample_bad_date_def)
  have patch: "handle sample_lib (PatchConcertsId 2 sample_bad_date) sample_state
     = (Inl ValueError,
        \<lparr>heap = [[(''id'', PJson (JInt 1)), (''artist'', PJson (JStr ''Pink Floyd'')),
                   (''venue'', PJson (JStr ''Werchter'')),
                   (''date'', PDate ''2017-07-20T20:00:00-02:00'')],
                  [(''id'', PJson (JInt 2)), (''artist'', PJson (JStr ''Can'')),
                   (''venue'', PJson (JStr ''Forest National'')),
                   (''date'', PDate ''2022-09-26T15:00:00-02:00'')]],
         concerts = [0, 1], concerts_key = 3\<rparr>)"
    using i j
    by (simp add: patch_concerts_id_def)
       (simp add: sample_bad_date_def sample_state_def patch_date_def sample_lib_def
          new_concert_def)
  have snap: "snapshot (heap sample_state) (concerts sample_state)
       = [[(''id'', PJson (JInt 1)), (''artist'', PJson (JStr ''Pink Floyd'')),
           (''venue'', PJson (JStr ''Werchter'')),
           (''date'', PDate ''2017-07-20T20:00:00-02:00'')],
          [(''id'', PJson (JInt 2)), (''artist'', PJson (JStr ''Kraftwerk'')),
           (''venue'', PJson (JStr ''Domaine National de St Cloud'')),
           (''date'', PDate ''2022-09-26T15:00:00-02:00'')]]"
    by (simp add: snapshot_def sample_state_def new_concert_def)
  have put: "handle sample_lib (PutConcertsId 2 sample_bad_date) sample_state
       = (Inl ValueError, sample_state)"
    using j r by (simp add: put_concerts_id_def)
  from patch snap put show ?thesis
    by (simp only: simp_thms)
qed

text \<open>
  C5. \<open>PUT /concerts/1\<close> on the initial store, where the first record has the id 1, is
  answered 201, not 204: the first record stays as it was and a second record with the id
  1 is appended. \<open>GET /concerts/1\<close> after it is answered 404.
\<close>

theorem put_first_id_not_replaced:
  "field_is (heap sample_state) (concerts sample_state ! 0) ''id'' 1
   \<and> fst (handle sample_lib (PutConcertsId 1 sample_request) sample_state)
       = Inr \<lparr>status = 201, body = NoBody, location = None\<rparr>
   \<and> snapshot (heap (snd (handle sample_lib (PutConcertsId 1 sample_request) sample_state)))
        (concerts (snd (handle sample_lib (PutConcertsId 1 sample_request) sample_state)))
       = [[(''id'', PJson (JInt 1)), (''artist'', PJson (JStr ''Pink Floyd'')),
           (''venue'', PJson (JStr ''Werchter'')),
           (''date'', PDate ''2017-07-20T20:00:00-02:00'')],
          [(''id'', PJson (JInt 2)), (''artist'', PJson (JStr ''Kraftwerk'')),
           (''venue'', PJson (JStr ''Domaine National de St Cloud'')),
           (''date'', PDate ''2022-09-26T15:00:00-02:00'')],
          [(''id'', PJson (JInt 1)), (''artist'', PJson (JStr ''Can'')),
           (''venue'', PJson (JStr ''Forest National'')),
           (''date'', PDate ''2024-01-01T00:00:00+00:00'')]]
   \<and> fst (handle sample_lib (GetConcertsId 1 None)
             (snd (handle sample_lib (PutConcertsId 1 sample_request) sample_state)))
       = Inr \<lparr>status = 404, body = JsonError ''Resource not found'', location = None\<rparr>"
proof -
  have f: "field_is (heap sample_state) (concerts sample_state ! 0) ''id'' 1"
    by (simp add: field_is_def sample_state_def new_concert_def dict_get_def)
  have snap: "snapshot (heap (snd (handle sample_lib (PutConcertsId 1 sample_request) sample_state)))
        (concerts (snd (handle sample_lib (PutConcertsId 1 sample_request) sample_state)))
       = [[(''id'', PJson (JInt 1)), (''artist'', PJson (JStr ''Pink Floyd'')),
           (''venue'', PJson (JStr ''Werchter'')),
           (''date'', PDate ''2017-07-20T20:00:00-02:00'')],
          [(''id'', PJson (JInt 2)), (''artist'', PJson (JStr ''Kraftwerk'')),
           (''venue'', PJson (JStr ''Domaine National de St Cloud'')),
           (''date'', PDate ''2022-09-26T15:00:00-02:00'')],
          [(''id'', PJson (JInt 1)), (''artist'', PJson (JStr ''Can'')),
           (''venue'', PJson (JStr ''Forest National'')),
           (''date'', PDate ''2024-01-01T00:00:00+00:00'')]]"
    unfolding sample_put_first
    by (simp add: snapshot_def sample_state_def new_concert_def)
  have get: "fst (handle sample_lib (GetConcertsId 1 None)
             (snd (handle sample_lib (PutConcertsId 1 sample_request) sample_state)))
       = Inr \<lparr>status = 404, body = JsonError ''Resource not found'', location = None\<rparr>"
    unfolding sample_put_first
    by (simp add: get_concerts_id_def content_index_def dict_has_def dict_get_def
        sample_state_def new_concert_def error_response_def)
  have st: "fst (handle sample_lib (PutConcertsId 1 sample_request) sample_state)
       = Inr \<lparr>status = 201, body = NoBody, location = None\<rparr>"
    unfolding sample_put_first by simp
  from f st snap get show ?thesis
    by (simp only: simp_thms)
qed

text \<open>
  C6. \<open>DELETE /concerts/1\<close> on the initial store, where the first record has the id 1, is
  answered 404 \<open>Resource not found\<close> and removes nothing.
\<close>

theorem delete_first_id_not_found:
  "field_is (heap sample_state) (concerts sample_state ! 0) ''id'' 1
   \<and> handle sample_lib (DelConcertsId 1) sample_state
       = (Inr \<lparr>status = 404, body = JsonError ''Resource not found'', location = None\<rparr>,
          sample_state)"
proof -
  have f: "field_is (heap sample_state) (concerts sample_state ! 0) ''id'' 1"
    by (simp add: field_is_def sample_state_def new_concert_def dict_get_def)
  have d: "handle sample_lib (DelConcertsId 1) sample_state
       = (Inr \<lparr>status = 404, body = JsonError ''Resource not found'', location = None\<rparr>,
          sample_state)"
    using sample_index by (simp add: del_concerts_id_def error_response_def)
  from f d show ?thesis
    by (simp only: simp_thms)
qed

end
